theory Spec2Isabelle
  imports Main "HOL-Library.AList"
begin

section \<open>Python strings\<close>

text \<open>
  A Python \<open>str\<close> is modelled as a \<open>string\<close> whose characters are code points below
  128. Characters from 128 up are carried through unchanged: they are neither white space
  nor digits, and \<open>upper\<close> leaves them alone.
\<close>

abbreviation dquote :: char where "dquote \<equiv> CHR 0x22"
abbreviation comma :: char where "comma \<equiv> CHR 0x2C"
abbreviation hyphen :: char where "hyphen \<equiv> CHR 0x2D"
abbreviation newline :: char where "newline \<equiv> CHR 0x0A"
abbreviation blank :: char where "blank \<equiv> CHR 0x20"

text \<open>\<open>str.isspace\<close> on one character; also the class \<open>\s\<close> of the \<open>re\<close> module.\<close>

definition is_space :: "char \<Rightarrow> bool" where
  "is_space c = (c \<in> set [CHR 0x09, CHR 0x0A, CHR 0x0B, CHR 0x0C, CHR 0x0D,
                          CHR 0x1C, CHR 0x1D, CHR 0x1E, CHR 0x1F, CHR 0x20])"

definition is_digit :: "char \<Rightarrow> bool" where
  "is_digit c = (c \<in> set ''0123456789'')"

text \<open>\<open>s.lstrip()\<close>, \<open>s.rstrip()\<close>, \<open>s.strip()\<close>.\<close>

definition lstrip :: "string \<Rightarrow> string" where
  "lstrip s = dropWhile is_space s"

definition rstrip :: "string \<Rightarrow> string" where
  "rstrip s = rev (dropWhile is_space (rev s))"

definition strip :: "string \<Rightarrow> string" where
  "strip s = rstrip (lstrip s)"

text \<open>\<open>s.strip(c)\<close> for a one-character argument.\<close>

definition strip_char :: "char \<Rightarrow> string \<Rightarrow> string" where
  "strip_char c s = rev (dropWhile (\<lambda>x. x = c) (rev (dropWhile (\<lambda>x. x = c) s)))"

text \<open>\<open>s.replace(c, '')\<close> for a one-character \<open>c\<close>.\<close>

definition remove_char :: "char \<Rightarrow> string \<Rightarrow> string" where
  "remove_char c s = filter (\<lambda>x. x \<noteq> c) s"

text \<open>\<open>s.split(c)\<close> for a one-character separator: never empty, \<open>''.split(c) == ['']\<close>.\<close>

fun split_char :: "char \<Rightarrow> string \<Rightarrow> string list" where
  "split_char c [] = [[]]"
| "split_char c (x # xs) =
     (if x = c then [] # split_char c xs
      else (case split_char c xs of
              [] \<Rightarrow> [[x]]
            | f # fs \<Rightarrow> (x # f) # fs))"

text \<open>\<open>s.upper()\<close>.\<close>

definition upper_char :: "char \<Rightarrow> char" where
  "upper_char c =
     (case map_of (zip ''abcdefghijklmnopqrstuvwxyz'' ''ABCDEFGHIJKLMNOPQRSTUVWXYZ'') c of
        Some u \<Rightarrow> u
      | None \<Rightarrow> c)"

definition upper :: "string \<Rightarrow> string" where
  "upper s = map upper_char s"

text \<open>\<open>s.isdigit()\<close>: false on the empty string.\<close>

definition isdigit :: "string \<Rightarrow> bool" where
  "isdigit s = (s \<noteq> [] \<and> list_all is_digit s)"

text \<open>The slice \<open>s[a:b]\<close> for \<open>0 \<le> a \<le> b\<close>: what lies beyond the end is left out.\<close>

definition slice :: "nat \<Rightarrow> nat \<Rightarrow> string \<Rightarrow> string" where
  "slice a b s = take (b - a) (drop a s)"

section \<open>Quoted-field files\<close>

subsection \<open>The batch-quote tokenizer (\<open>parse_bq_file\<close>)\<close>

text \<open>
  One step of the loop \<open>for char in line\<close>; the state is \<open>(parts, current, in_quotes)\<close>.
\<close>

fun tokenize_step :: "string list \<times> string \<times> bool \<Rightarrow> char \<Rightarrow> string list \<times> string \<times> bool" where
  "tokenize_step (parts, current, in_quotes) ch =
     (if ch = dquote \<and> \<not> in_quotes then (parts, current, True)
      else if ch = dquote \<and> in_quotes then (parts, current, False)
      else if ch = comma \<and> \<not> in_quotes then (parts @ [current], [], in_quotes)
      else (parts, current @ [ch], in_quotes))"

text \<open>The loop, followed by \<open>if current: parts.append(current)\<close>.\<close>

definition tokenize :: "string \<Rightarrow> string list" where
  "tokenize line =
     (case foldl tokenize_step ([], [], False) line of
        (parts, current, in_quotes) \<Rightarrow>
          if current \<noteq> [] then parts @ [current] else parts)"

record bq_row =
  bq_solicitation_number :: string
  bq_solicitation_type :: string
  bq_small_business_setaside :: string
  bq_additional_clause_fillins :: string
  bq_return_by_date :: string
  bq_line_number :: string
  bq_purchase_request :: string
  bq_nsn_part_number :: string
  bq_unit_of_issue :: string
  bq_quantity :: string
  bq_unit_price :: string
  bq_delivery_days :: string
  bq_nsn_clean :: "string option"

text \<open>\<open>parts[i].strip('"') if len(parts) > i else ''\<close>.\<close>

definition part_or_empty :: "string list \<Rightarrow> nat \<Rightarrow> string" where
  "part_or_empty parts i = (if length parts > i then strip_char dquote (parts ! i) else [])"

definition bq_quote :: "string list \<Rightarrow> bq_row" where
  "bq_quote parts =
     (let nsn = part_or_empty parts 46 in
      \<lparr> bq_solicitation_number = part_or_empty parts 0,
        bq_solicitation_type = part_or_empty parts 1,
        bq_small_business_setaside = part_or_empty parts 2,
        bq_additional_clause_fillins = part_or_empty parts 3,
        bq_return_by_date = part_or_empty parts 4,
        bq_line_number = part_or_empty parts 43,
        bq_purchase_request = part_or_empty parts 45,
        bq_nsn_part_number = nsn,
        bq_unit_of_issue = part_or_empty parts 47,
        bq_quantity = part_or_empty parts 48,
        bq_unit_price = part_or_empty parts 49,
        bq_delivery_days = part_or_empty parts 50,
        bq_nsn_clean = (if nsn \<noteq> [] then Some (remove_char hyphen nsn) else None) \<rparr>)"

text \<open>
  The body of \<open>for line in content.split('\n')\<close>: the records the line adds to
  \<open>batch_quotes\<close> (none or one).
\<close>

definition parse_bq_line :: "string \<Rightarrow> bq_row list" where
  "parse_bq_line raw =
     (let line = strip raw in
      if line = [] then []
      else (let parts = tokenize line in
            if length parts \<ge> 48 then [bq_quote parts] else []))"

definition parse_bq_file :: "string \<Rightarrow> bq_row list" where
  "parse_bq_file content = concat (map parse_bq_line (split_char newline content))"

subsection \<open>The approved-sources parser (\<open>parse_as_file\<close>)\<close>

record as_row =
  as_nsn :: string
  as_supplier_cage_code :: string
  as_supplier_part_number :: string
  as_supplier_name :: string

text \<open>\<open>[p.strip('"') for p in line.split(',')]\<close>.\<close>

definition as_parts :: "string \<Rightarrow> string list" where
  "as_parts line = map (strip_char dquote) (split_char comma line)"

definition parse_as_line :: "string \<Rightarrow> as_row list" where
  "parse_as_line raw =
     (let line = strip raw in
      if line = [] then []
      else (let parts = as_parts line in
            if length parts \<ge> 3
            then [\<lparr> as_nsn = parts ! 0,
                    as_supplier_cage_code = parts ! 1,
                    as_supplier_part_number = parts ! 2,
                    as_supplier_name = (if length parts > 3 then parts ! 3 else []) \<rparr>]
            else []))"

definition parse_as_file :: "string \<Rightarrow> as_row list" where
  "parse_as_file content = concat (map parse_as_line (split_char newline content))"

text \<open>
  The tokenizer as the specification words it: fields are separated by the commas
  outside double-quote runs, the quote characters themselves are not emitted, and every
  separator closes a field, so that a line with \<open>n\<close> separators has \<open>n + 1\<close> fields.
  The flag is the quote state at the start of the text.
\<close>

fun spec_fields :: "bool \<Rightarrow> string \<Rightarrow> string list" where
  "spec_fields q [] = [[]]"
| "spec_fields q (c # cs) =
     (if c = dquote then spec_fields (\<not> q) cs
      else if c = comma \<and> \<not> q then [] # spec_fields q cs
      else (case spec_fields q cs of
              [] \<Rightarrow> [[c]]
            | f # fs \<Rightarrow> (c # f) # fs))"

text \<open>The number of separators: commas outside double-quote runs.\<close>

fun unquoted_commas :: "bool \<Rightarrow> string \<Rightarrow> nat" where
  "unquoted_commas q [] = 0"
| "unquoted_commas q (c # cs) =
     (if c = dquote then unquoted_commas (\<not> q) cs
      else if c = comma \<and> \<not> q then Suc (unquoted_commas q cs)
      else unquoted_commas q cs)"

text \<open>The quote state after a text: every double quote toggles it.\<close>

fun quote_state :: "bool \<Rightarrow> string \<Rightarrow> bool" where
  "quote_state q [] = q"
| "quote_state q (c # cs) = quote_state (if c = dquote then \<not> q else q) cs"

section \<open>The fixed-width index file (\<open>parse_in_file\<close>)\<close>

record in_row =
  in_solicitation_number :: string
  in_nsn_part_number :: string
  in_purchase_request :: string
  in_return_by_date :: string
  in_file_name :: string
  in_quantity :: string
  in_unit_issue :: string
  in_nomenclature :: string
  in_buyer_code :: string
  in_amsc :: string
  in_item_type :: string
  in_small_business_setaside :: string
  in_setaside_percentage :: string
  in_nsn_clean :: "string option"

text \<open>
  The record built from one line in \<open>combined.py\<close>. Slicing never raises, so the
  \<open>try\<close> around it has no failing branch. The key \<open>nsn_clean\<close> is set only when the
  NSN field is not empty.
\<close>

definition in_record :: "string \<Rightarrow> in_row" where
  "in_record line =
     (let nsn = strip (slice 13 59 line) in
      \<lparr> in_solicitation_number = strip (slice 0 13 line),
        in_nsn_part_number = nsn,
        in_purchase_request = strip (slice 59 72 line),
        in_return_by_date = strip (slice 72 80 line),
        in_file_name = strip (slice 80 99 line),
        in_quantity = strip (slice 99 106 line),
        in_unit_issue = strip (slice 106 108 line),
        in_nomenclature = strip (slice 108 129 line),
        in_buyer_code = (if length line > 129 then strip (slice 129 134 line) else []),
        in_amsc = (if length line > 134 then strip (slice 134 135 line) else []),
        in_item_type = (if length line > 135 then strip (slice 135 136 line) else []),
        in_small_business_setaside = (if length line > 136 then strip (slice 136 137 line) else []),
        in_setaside_percentage = (if length line > 137 then strip (slice 137 140 line) else []),
        in_nsn_clean = (if nsn \<noteq> [] then Some (remove_char hyphen nsn) else None) \<rparr>)"

text \<open>The loop \<open>for line in content.split('\n')\<close> with its accumulator \<open>records\<close>.\<close>

fun parse_in_lines :: "in_row list \<Rightarrow> string list \<Rightarrow> in_row list" where
  "parse_in_lines records [] = records"
| "parse_in_lines records (line # rest) =
     (if length (strip line) = 0 then parse_in_lines records rest
      else parse_in_lines (records @ [in_record line]) rest)"

definition parse_in_file :: "string \<Rightarrow> in_row list" where
  "parse_in_file content = parse_in_lines [] (split_char newline content)"

text \<open>
  The same parser in \<open>file_processor.py\<close>, which reads the lines from an open file
  (each with its line end) and takes the buyer code without a length test.
\<close>

definition fp_in_record :: "string \<Rightarrow> in_row" where
  "fp_in_record line =
     (let nsn = strip (slice 13 59 line) in
      \<lparr> in_solicitation_number = strip (slice 0 13 line),
        in_nsn_part_number = nsn,
        in_purchase_request = strip (slice 59 72 line),
        in_return_by_date = strip (slice 72 80 line),
        in_file_name = strip (slice 80 99 line),
        in_quantity = strip (slice 99 106 line),
        in_unit_issue = strip (slice 106 108 line),
        in_nomenclature = strip (slice 108 129 line),
        in_buyer_code = strip (slice 129 134 line),
        in_amsc = (if length line > 134 then strip (slice 134 135 line) else []),
        in_item_type = (if length line > 135 then strip (slice 135 136 line) else []),
        in_small_business_setaside = (if length line > 136 then strip (slice 136 137 line) else []),
        in_setaside_percentage = (if length line > 137 then strip (slice 137 140 line) else []),
        in_nsn_clean = (if nsn \<noteq> [] then Some (remove_char hyphen nsn) else None) \<rparr>)"

fun fp_parse_in_lines :: "in_row list \<Rightarrow> string list \<Rightarrow> in_row list" where
  "fp_parse_in_lines records [] = records"
| "fp_parse_in_lines records (line # rest) =
     (if length (strip line) = 0 then fp_parse_in_lines records rest
      else fp_parse_in_lines (records @ [fp_in_record line]) rest)"

section \<open>Numbers read from text\<close>

definition digit_val :: "char \<Rightarrow> int" where
  "digit_val c =
     (case map_of (zip ''0123456789'' [0, 1, 2, 3, 4, 5, 6, 7, 8, 9]) c of
        Some n \<Rightarrow> n
      | None \<Rightarrow> 0)"

text \<open>The value of a string of decimal digits.\<close>

definition dec_value :: "string \<Rightarrow> int" where
  "dec_value s = foldl (\<lambda>n c. 10 * n + digit_val c) 0 s"

text \<open>
  The digits that \<open>int()\<close> accepts after the sign: decimal digits, with single
  underscores allowed between two digits.
\<close>

fun int_body_ok :: "bool \<Rightarrow> string \<Rightarrow> bool" where
  "int_body_ok after_digit [] = after_digit"
| "int_body_ok after_digit (c # cs) =
     (if is_digit c then int_body_ok True cs
      else if c = CHR ''_'' \<and> after_digit then (cs \<noteq> [] \<and> is_digit (hd cs) \<and> int_body_ok False cs)
      else False)"

definition int_body :: "string \<Rightarrow> int option" where
  "int_body s = (if int_body_ok False s then Some (dec_value (remove_char (CHR ''_'') s)) else None)"

text \<open>
  \<open>int(s)\<close> for a string: \<open>None\<close> stands for \<open>ValueError\<close>. The limit that newer
  interpreters put on the number of digits is not modelled.
\<close>

definition py_int :: "string \<Rightarrow> int option" where
  "py_int s =
     (case strip s of
        [] \<Rightarrow> None
      | c # r \<Rightarrow>
          if c = CHR ''+'' then int_body r
          else if c = CHR ''-'' then map_option uminus (int_body r)
          else int_body (c # r))"

text \<open>
  \<open>_parse_int(value)\<close>; the argument \<open>None\<close> is Python's \<open>None\<close>, and an exception
  of \<open>int()\<close> is caught and gives \<open>None\<close>.
\<close>

definition parse_int :: "string option \<Rightarrow> int option" where
  "parse_int value =
     (case value of
        None \<Rightarrow> None
      | Some v \<Rightarrow> if v = [] then None else py_int (remove_char comma (strip v)))"

section \<open>The quantity inside the purchase-request text\<close>

subsection \<open>The pattern \<open>\s*QTY:\s*(\d+(?:,\d+)*)\s*\<close> with \<open>re.IGNORECASE\<close>\<close>

text \<open>
  \<open>\d+(?:,\d+)*\<close> read greedily from a text that starts with a digit: the digits, and
  every comma that a digit follows. The result is the text matched and the rest. Nothing
  after this point of the pattern can fail, so the greedy reading is the match.
\<close>

fun qty_digits :: "string \<Rightarrow> string \<times> string" where
  "qty_digits [] = ([], [])"
| "qty_digits (c # cs) =
     (if is_digit c \<or> (c = comma \<and> cs \<noteq> [] \<and> is_digit (hd cs))
      then (case qty_digits cs of (g, r) \<Rightarrow> (c # g, r))
      else ([], c # cs))"

text \<open>
  The pattern matched at the start of a text: group 1 and the text after the match. Each
  \<open>\s*\<close> takes all the white space there is, since what follows it in the pattern cannot
  start with white space.
\<close>

definition match_qty :: "string \<Rightarrow> (string \<times> string) option" where
  "match_qty s =
     (case dropWhile is_space s of
        q # t # y # c # s2 \<Rightarrow>
          if upper_char q = CHR ''Q'' \<and> upper_char t = CHR ''T'' \<and> upper_char y = CHR ''Y''
             \<and> c = CHR '':''
          then (case dropWhile is_space s2 of
                  [] \<Rightarrow> None
                | d # s3 \<Rightarrow>
                    if is_digit d
                    then (case qty_digits (d # s3) of (g, r) \<Rightarrow> Some (g, dropWhile is_space r))
                    else None)
          else None
      | _ \<Rightarrow> None)"

text \<open>\<open>re.search\<close>: the match at the leftmost position that has one (group 1 only).\<close>

fun search_qty :: "string \<Rightarrow> string option" where
  "search_qty [] = None"
| "search_qty (c # cs) =
     (case match_qty (c # cs) of
        Some (g, r) \<Rightarrow> Some g
      | None \<Rightarrow> search_qty cs)"

text \<open>
  \<open>re.sub(qty_pattern, '', s)\<close>: every match is removed, the search going on where the
  previous match ended. A match is never empty, as it holds \<open>QTY:\<close>.
\<close>

function sub_qty :: "string \<Rightarrow> string" where
  "sub_qty [] = []"
| "sub_qty (c # cs) =
     (case match_qty (c # cs) of
        Some (g, r) \<Rightarrow> sub_qty r
      | None \<Rightarrow> c # sub_qty cs)"
  by pat_completeness auto
termination
proof -
  have q: "length (snd (qty_digits t)) \<le> length t" for t
    by (induction t) (auto split: prod.splits)
  have d: "length (dropWhile is_space t) \<le> length t" for t
    by (rule length_dropWhile_le)
  have shorter: "length r < length s" if m: "match_qty s = Some (g, r)" for s g r
  proof -
    from m obtain a b c e s2 where s1: "dropWhile is_space s = a # b # c # e # s2"
      by (auto simp: match_qty_def split: list.splits)
    with m obtain x s3 where s3: "dropWhile is_space s2 = x # s3"
      by (auto simp: match_qty_def split: list.splits if_splits)
    with m s1 have r: "r = dropWhile is_space (snd (qty_digits (x # s3)))"
      by (auto simp: match_qty_def split: list.splits if_splits prod.splits)
    have "length r \<le> length (x # s3)"
      unfolding r using q [of "x # s3"] d [of "snd (qty_digits (x # s3))"] by linarith
    also have "\<dots> \<le> length s2"
      using d [of s2] by (simp add: s3)
    also have "\<dots> < length (dropWhile is_space s)"
      by (simp add: s1)
    also have "\<dots> \<le> length s"
      by (rule d)
    finally show ?thesis .
  qed
  show ?thesis
    by (relation "measure length") (auto dest: shorter)
qed

text \<open>\<open>extract_quantity_from_purchase_request\<close>.\<close>

definition extract_quantity_from_purchase_request :: "string \<Rightarrow> string \<times> int option" where
  "extract_quantity_from_purchase_request purchase_request =
     (if purchase_request = [] then ([], None)
      else (case search_qty purchase_request of
              Some g \<Rightarrow>
                (strip (sub_qty purchase_request), Some (dec_value (remove_char comma g)))
            | None \<Rightarrow> (strip purchase_request, None)))"

subsection \<open>The purchase-request cell of the HTML row parser\<close>

text \<open>\<open>sep in s\<close> and \<open>s.split(sep)\<close> for a separator of several characters.\<close>

fun contains :: "string \<Rightarrow> string \<Rightarrow> bool" where
  "contains sep [] = (sep = [])"
| "contains sep (c # cs) = (take (length sep) (c # cs) = sep \<or> contains sep cs)"




subsection \<open>The texts on which the two readings are compared\<close>



text \<open>White space other than a line break.\<close>

definition blanks :: "string \<Rightarrow> bool" where
  "blanks ws = list_all (\<lambda>c. is_space c \<and> c \<noteq> newline) ws"

text \<open>The keyword \<open>QTY:\<close> in any letter case.\<close>

definition qty_keyword :: "string \<Rightarrow> bool" where
  "qty_keyword kw =
     (case kw of
        [q, t, y, c] \<Rightarrow>
          upper_char q = CHR ''Q'' \<and> upper_char t = CHR ''T'' \<and> upper_char y = CHR ''Y''
          \<and> c = CHR '':''
      | _ \<Rightarrow> False)"

text \<open>
  A purchase-request number on one line: no lower-case letter and no line break, the
  keyword \<open>QTY:\<close> nowhere inside, and no white space at either end. Blanks and colons
  may stand inside, and the number may be empty.
\<close>

definition pr_text :: "string \<Rightarrow> bool" where
  "pr_text pr =
     (list_all (\<lambda>c. upper_char c = c \<and> c \<noteq> newline) pr
      \<and> \<not> contains ''QTY:'' pr
      \<and> (pr = [] \<or> (\<not> is_space (hd pr) \<and> \<not> is_space (last pr))))"

section \<open>The reconciliation engine (\<open>merge_data_sources\<close>)\<close>

subsection \<open>Helpers of the scraper class\<close>

text \<open>\<open>s.split()\<close>: the words between runs of white space.\<close>

fun split_ws_step :: "string list \<times> string \<Rightarrow> char \<Rightarrow> string list \<times> string" where
  "split_ws_step (ws, cur) c =
     (if is_space c then (if cur = [] then (ws, []) else (ws @ [cur], []))
      else (ws, cur @ [c]))"

definition split_ws :: "string \<Rightarrow> string list" where
  "split_ws s =
     (case foldl split_ws_step ([], []) s of
        (ws, cur) \<Rightarrow> if cur = [] then ws else ws @ [cur])"

text \<open>\<open>' '.join(ws)\<close>.\<close>

definition join_blank :: "string list \<Rightarrow> string" where
  "join_blank ws = (case ws of [] \<Rightarrow> [] | w # rest \<Rightarrow> w @ concat (map (\<lambda>x. blank # x) rest))"

definition clean_nomenclature :: "string \<Rightarrow> string" where
  "clean_nomenclature nomenclature =
     (if nomenclature = [] then [] else join_blank (split_ws nomenclature))"

text \<open>\<open>clean_nsn\<close>: the text before the first blank, trimmed.\<close>

definition clean_nsn :: "string \<Rightarrow> string" where
  "clean_nsn nsn_value =
     (if nsn_value = [] then []
      else (case split_char blank nsn_value of [] \<Rightarrow> [] | f # rest \<Rightarrow> strip f))"

text \<open>\<open>s.zfill(width)\<close>: zeros are put after a leading sign.\<close>

definition zfill :: "nat \<Rightarrow> string \<Rightarrow> string" where
  "zfill width s =
     (if length s \<ge> width then s
      else (case s of
              [] \<Rightarrow> replicate width (CHR ''0'')
            | c # r \<Rightarrow>
                if c = CHR ''+'' \<or> c = CHR ''-''
                then c # replicate (width - length s) (CHR ''0'') @ r
                else replicate (width - length s) (CHR ''0'') @ s))"

text \<open>
  A Python \<open>float\<close> is kept as the text it was read from: \<open>Float_of s\<close> is the value of
  \<open>float(s)\<close> for a text that \<open>float()\<close> accepts. Two texts of one number are two
  values here; no property below compares floats.
\<close>

datatype pyfloat = Float_of string

definition lower_char :: "char \<Rightarrow> char" where
  "lower_char c =
     (case map_of (zip ''ABCDEFGHIJKLMNOPQRSTUVWXYZ'' ''abcdefghijklmnopqrstuvwxyz'') c of
        Some l \<Rightarrow> l
      | None \<Rightarrow> c)"

text \<open>The decimal point and the digits around it: \<open>12\<close>, \<open>12.\<close>, \<open>12.5\<close>, \<open>.5\<close>.\<close>

definition float_mantissa_ok :: "string \<Rightarrow> bool" where
  "float_mantissa_ok m =
     (let a = takeWhile (\<lambda>c. c \<noteq> CHR ''.'') m; b = dropWhile (\<lambda>c. c \<noteq> CHR ''.'') m in
      case b of
        [] \<Rightarrow> int_body_ok False a
      | dot # frac \<Rightarrow>
          (int_body_ok False a \<and> (frac = [] \<or> int_body_ok False frac))
          \<or> (a = [] \<and> int_body_ok False frac))"

definition float_exponent_ok :: "string \<Rightarrow> bool" where
  "float_exponent_ok e =
     (case e of
        [] \<Rightarrow> False
      | c # r \<Rightarrow> if c = CHR ''+'' \<or> c = CHR ''-'' then int_body_ok False r else int_body_ok False e)"

definition float_number_ok :: "string \<Rightarrow> bool" where
  "float_number_ok s =
     (let m = takeWhile (\<lambda>c. c \<noteq> CHR ''e'' \<and> c \<noteq> CHR ''E'') s;
          r = dropWhile (\<lambda>c. c \<noteq> CHR ''e'' \<and> c \<noteq> CHR ''E'') s in
      case r of
        [] \<Rightarrow> float_mantissa_ok m
      | e # ex \<Rightarrow> float_mantissa_ok m \<and> float_exponent_ok ex)"

text \<open>The texts that \<open>float()\<close> accepts, white space around them apart.\<close>

definition float_ok :: "string \<Rightarrow> bool" where
  "float_ok s =
     (let t = strip s;
          u = (case t of [] \<Rightarrow> [] | c # r \<Rightarrow> if c = CHR ''+'' \<or> c = CHR ''-'' then r else t) in
      map lower_char u \<in> set [''inf'', ''infinity'', ''nan''] \<or> float_number_ok u)"

text \<open>\<open>_parse_float(value)\<close>.\<close>

definition parse_float :: "string option \<Rightarrow> pyfloat option" where
  "parse_float value =
     (case value of
        None \<Rightarrow> None
      | Some v \<Rightarrow>
          if v = [] then None
          else (let cleaned = remove_char comma (strip v) in
                if float_ok cleaned then Some (Float_of cleaned) else None))"

text \<open>\<open>decode_setaside\<close>: code, description and percentage.\<close>

definition decode_setaside :: "string \<Rightarrow> string \<times> string \<times> int" where
  "decode_setaside code =
     (case map_of
        [(''Y'', (''Small Business Set-Aside'', 100)),
         (''H'', (''HUBZone Set-Aside'', 100)),
         (''R'', (''Service Disabled Veteran-Owned Small Business (SDVOSB) Set-Aside'', 100)),
         (''L'', (''Woman Owned Small Business (WOSB) Set-Aside'', 100)),
         (''A'', (''8a Set-Aside'', 100)),
         (''E'', (''Economically Disadvantaged Woman Owned Small Business (EDWOSB) Set-Aside'', 100)),
         (''N'', (''Unrestricted/Not Set-Aside'', 0))] code of
        Some (description, percentage) \<Rightarrow> (code, description, percentage)
      | None \<Rightarrow> (code, ''Unknown'', 0))"

text \<open>
  What the engine takes from outside: the clock reading \<open>datetime.utcnow().isoformat() + 'Z'\<close>
  (successive readings are not told apart) and the date conversion of the standard
  library. \<open>env_strptime env fmt s\<close> is \<open>Some d\<close> when \<open>datetime.strptime(s, fmt)\<close>
  succeeds, \<open>d\<close> being its \<open>strftime('%Y-%m-%d')\<close>, and \<open>None\<close> when it raises.
\<close>

record env =
  env_now :: string
  env_strptime :: "string \<Rightarrow> string \<Rightarrow> string option"

text \<open>The first format that parses, as the loop \<open>for fmt in formats\<close> finds it.\<close>

fun first_format :: "(string \<Rightarrow> string option) \<Rightarrow> string list \<Rightarrow> string option" where
  "first_format try [] = None"
| "first_format try (fmt # fmts) =
     (case try fmt of Some d \<Rightarrow> Some d | None \<Rightarrow> first_format try fmts)"

text \<open>\<open>parse_date(date_str, format)\<close>; the argument \<open>None\<close> is Python's \<open>None\<close>.\<close>

definition parse_date :: "env \<Rightarrow> string option \<Rightarrow> string \<Rightarrow> string option" where
  "parse_date e date_str format =
     (case date_str of
        None \<Rightarrow> None
      | Some s \<Rightarrow>
          if s = [] \<or> strip s = [] then None
          else (let format1 =
                      (if hyphen \<in> set s \<and> length (takeWhile (\<lambda>c. c \<noteq> hyphen) s) = 2
                       then ''%m-%d-%Y'' else format) in
                first_format (\<lambda>fmt. env_strptime e fmt (strip s))
                  [format1, ''%m-%d-%Y'', ''%Y-%m-%d'', ''%m/%d/%y'', ''%m%d%Y'', ''%m%d%y'']))"

subsection \<open>Rows and the record tree\<close>

record tech_doc =
  doc_title :: string
  doc_url :: string

text \<open>A row of the HTML row parser, with the keys \<open>RfqRecsParser\<close> gives every row.\<close>

record web_row =
  web_item_number :: string
  web_nsn_part_number :: string
  web_nomenclature :: string
  web_technical_documents :: "tech_doc list"
  web_solicitation :: string
  web_solicitation_url :: string
  web_setaside_type :: string
  web_rfq_quote_status :: string
  web_purchase_request :: string
  web_pr_number :: string
  web_quantity :: string
  web_issued :: string
  web_return_by :: string

record approved_source =
  src_supplier_cage_code :: string
  src_supplier_part_number :: string

text \<open>
  A CLIN dictionary. In the optional fields \<open>None\<close> stands for a key that is absent or
  holds Python's \<open>None\<close>; the code reads these keys with \<open>get\<close>, which does not tell
  the two apart.
\<close>

record clin =
  clin_number :: "string option"
  clin_nsn :: string
  clin_part_number :: string
  clin_nomenclature :: string
  clin_pr_number :: string
  clin_quantity :: "int option"
  clin_unit_of_issue :: "string option"
  clin_unit_price :: "pyfloat option"
  clin_delivery_days :: "int option"
  clin_technical_documents :: "tech_doc list option"
  clin_approved_sources :: "approved_source list option"

text \<open>\<open>setaside_percentage\<close> is \<open>float(...)\<close> of the row's digits or the integer default.\<close>

datatype percentage = Pct_float pyfloat | Pct_int int

record solicitation =
  sol_number :: string
  sol_clins :: "clin list"
  sol_scrape_timestamp :: string
  sol_data_source :: string
  sol_last_updated :: string
  sol_type :: "string option"
  sol_small_business_setaside :: "string option"
  sol_additional_clause_fillins :: "bool option"
  sol_return_by_date :: "string option"
  sol_setaside_type :: "string option"
  sol_rfq_quote_status :: "string option"
  sol_issued_date :: "string option"
  sol_links_solicitation_url :: "string option"
  sol_setaside_percentage :: "percentage option"
  sol_amsc :: "string option"
  sol_raw_batch_quote_data :: "bq_row list option"

text \<open>The dictionary literal that every pass stores for a solicitation it has not seen.\<close>

definition new_solicitation :: "env \<Rightarrow> string \<Rightarrow> string \<Rightarrow> solicitation" where
  "new_solicitation e num source =
     \<lparr> sol_number = num, sol_clins = [], sol_scrape_timestamp = env_now e,
       sol_data_source = source, sol_last_updated = env_now e,
       sol_type = None, sol_small_business_setaside = None,
       sol_additional_clause_fillins = None, sol_return_by_date = None,
       sol_setaside_type = None, sol_rfq_quote_status = None, sol_issued_date = None,
       sol_links_solicitation_url = None, sol_setaside_percentage = None, sol_amsc = None,
       sol_raw_batch_quote_data = None \<rparr>"

subsection \<open>Dictionaries that keep insertion order\<close>

text \<open>
  \<open>if key not in d: d[key] = []\<close> followed by \<open>d[key].append(record)\<close>, and the loop
  that builds \<open>bq_lookup\<close> and \<open>as_lookup\<close> with it.
\<close>

definition group_add :: "('r \<Rightarrow> 'k) \<Rightarrow> ('k \<times> 'r list) list \<Rightarrow> 'r \<Rightarrow> ('k \<times> 'r list) list" where
  "group_add key lookup record =
     (case map_of lookup (key record) of
        None \<Rightarrow> lookup @ [(key record, [record])]
      | Some rs \<Rightarrow> AList.update (key record) (rs @ [record]) lookup)"

definition group_by :: "('r \<Rightarrow> 'k) \<Rightarrow> 'r list \<Rightarrow> ('k \<times> 'r list) list" where
  "group_by key records = foldl (group_add key) [] records"

text \<open>
  The working map \<open>solicitations\<close>. \<open>ensure\<close> is
  \<open>if k not in solicitations: solicitations[k] = v\<close>; \<open>modify\<close> is the in-place change of
  the dictionary \<open>solicitations[k]\<close>.
\<close>

type_synonym sol_map = "(string \<times> solicitation) list"

definition ensure :: "string \<Rightarrow> solicitation \<Rightarrow> sol_map \<Rightarrow> sol_map" where
  "ensure k v m = (if k \<in> fst ` set m then m else m @ [(k, v)])"

definition modify :: "string \<Rightarrow> (solicitation \<Rightarrow> solicitation) \<Rightarrow> sol_map \<Rightarrow> sol_map" where
  "modify k f m = map (\<lambda>(k', v). if k' = k then (k', f v) else (k', v)) m"

text \<open>
  The search \<open>for clin in sol['clins']: if clin['nsn'] == nsn: existing_clin = clin; break\<close>
  followed by a change of the CLIN found: the first CLIN with that NSN is changed in place,
  \<open>None\<close> when there is none.
\<close>

fun update_first_nsn :: "string \<Rightarrow> (clin \<Rightarrow> clin) \<Rightarrow> clin list \<Rightarrow> clin list option" where
  "update_first_nsn nsn f [] = None"
| "update_first_nsn nsn f (c # cs) =
     (if clin_nsn c = nsn then Some (f c # cs)
      else map_option (\<lambda>cs'. c # cs') (update_first_nsn nsn f cs))"

subsection \<open>Pass 1: the batch-quote rows\<close>

text \<open>The CLIN built from one batch-quote row.\<close>

definition bq_clin :: "bq_row \<Rightarrow> clin" where
  "bq_clin record =
     (let nsn_raw = bq_nsn_part_number record in
      \<lparr> clin_number = Some (zfill 4 (bq_line_number record)),
        clin_nsn = (if nsn_raw \<noteq> [] then remove_char hyphen nsn_raw else []),
        clin_part_number = nsn_raw,
        clin_nomenclature = clean_nomenclature [],
        clin_pr_number = bq_purchase_request record,
        clin_quantity = parse_int (Some (bq_quantity record)),
        clin_unit_of_issue = Some (bq_unit_of_issue record),
        clin_unit_price = parse_float (Some (bq_unit_price record)),
        clin_delivery_days = parse_int (Some (bq_delivery_days record)),
        clin_technical_documents = None,
        clin_approved_sources = Some [] \<rparr>)"

text \<open>The header fields taken from the first row of a group.\<close>

definition bq_header :: "env \<Rightarrow> bq_row \<Rightarrow> solicitation \<Rightarrow> solicitation" where
  "bq_header e first sol =
     sol \<lparr> sol_type := Some (bq_solicitation_type first),
           sol_small_business_setaside := Some (bq_small_business_setaside first),
           sol_additional_clause_fillins := Some (bq_additional_clause_fillins first = ''Y''),
           sol_return_by_date := parse_date e (Some (bq_return_by_date first)) ''%m/%d/%Y'' \<rparr>"

text \<open>The body of \<open>for record in records\<close>.\<close>

definition bq_add_clin :: "solicitation \<Rightarrow> bq_row \<Rightarrow> solicitation" where
  "bq_add_clin sol record =
     sol \<lparr> sol_clins := sol_clins sol @ [bq_clin record],
           sol_raw_batch_quote_data :=
             Some ((case sol_raw_batch_quote_data sol of None \<Rightarrow> [] | Some raw \<Rightarrow> raw) @ [record]) \<rparr>"

text \<open>The body of \<open>for key, records in bq_lookup.items()\<close>.\<close>

definition bq_group :: "env \<Rightarrow> sol_map \<Rightarrow> (string \<times> string) \<times> bq_row list \<Rightarrow> sol_map" where
  "bq_group e solicitations entry =
     (case entry of
        ((sol_num, line_number), records) \<Rightarrow>
          (let sol_num_clean = upper (strip sol_num) in
           modify sol_num_clean
             (\<lambda>sol. foldl bq_add_clin
                      (case records of [] \<Rightarrow> sol | first # rest \<Rightarrow> bq_header e first sol)
                      records)
             (ensure sol_num_clean (new_solicitation e sol_num_clean ''batch_quote'')
                solicitations)))"

definition bq_pass :: "env \<Rightarrow> bq_row list \<Rightarrow> sol_map \<Rightarrow> sol_map" where
  "bq_pass e bq_data solicitations =
     foldl (bq_group e) solicitations
       (group_by (\<lambda>record. (bq_solicitation_number record, bq_line_number record)) bq_data)"

subsection \<open>Pass 2: the web rows\<close>

text \<open>\<open>not d.get(key)\<close> for a text, and for a number (\<open>0\<close> counts as missing).\<close>

definition missing_text :: "string option \<Rightarrow> bool" where
  "missing_text v = (v = None \<or> v = Some [])"

definition missing_number :: "int option \<Rightarrow> bool" where
  "missing_number v = (v = None \<or> v = Some 0)"

text \<open>The change of an existing CLIN by a web row, and the CLIN that a web row adds.\<close>

definition web_enhance :: "tech_doc list \<Rightarrow> string \<Rightarrow> string \<Rightarrow> int option \<Rightarrow> clin \<Rightarrow> clin" where
  "web_enhance docs nomenclature pr quantity existing_clin =
     (let c1 = existing_clin \<lparr> clin_technical_documents := Some docs \<rparr>;
          c2 = (if clin_nomenclature c1 = [] then c1 \<lparr> clin_nomenclature := nomenclature \<rparr> else c1);
          c3 = (if clin_pr_number c2 = [] then c2 \<lparr> clin_pr_number := pr \<rparr> else c2)
      in if missing_number (clin_quantity c3) then c3 \<lparr> clin_quantity := quantity \<rparr> else c3)"

definition web_clin :: "string \<Rightarrow> string \<Rightarrow> string \<Rightarrow> string \<Rightarrow> int option \<Rightarrow> tech_doc list \<Rightarrow> clin" where
  "web_clin nsn raw_nsn nomenclature pr quantity docs =
     \<lparr> clin_number = None, clin_nsn = nsn, clin_part_number = raw_nsn,
       clin_nomenclature = nomenclature, clin_pr_number = pr, clin_quantity = quantity,
       clin_unit_of_issue = None, clin_unit_price = None, clin_delivery_days = None,
       clin_technical_documents = Some docs, clin_approved_sources = None \<rparr>"

text \<open>What one web row does to the solicitation it belongs to.\<close>

definition web_update :: "env \<Rightarrow> web_row \<Rightarrow> solicitation \<Rightarrow> solicitation" where
  "web_update e record sol0 =
     (let sol1 = (if sol_data_source sol0 = ''batch_quote''
                  then sol0 \<lparr> sol_data_source := ''batch_quote_and_web_scrape'' \<rparr> else sol0);
          sol2 = sol1 \<lparr> sol_setaside_type := Some (web_setaside_type record),
                        sol_rfq_quote_status := Some (web_rfq_quote_status record),
                        sol_issued_date := parse_date e (Some (web_issued record)) ''%m/%d/%Y'',
                        sol_links_solicitation_url := Some (web_solicitation_url record) \<rparr>;
          sol3 = (if missing_text (sol_return_by_date sol2)
                  then sol2 \<lparr> sol_return_by_date :=
                                 parse_date e (Some (web_return_by record)) ''%m/%d/%Y'' \<rparr>
                  else sol2);
          raw_nsn = web_nsn_part_number record;
          nsn = clean_nsn raw_nsn;
          extracted = extract_quantity_from_purchase_request (web_purchase_request record);
          clean_pr = fst extracted;
          nomenclature = clean_nomenclature (web_nomenclature record);
          final_quantity = (case snd extracted of
                              Some q \<Rightarrow> Some q
                            | None \<Rightarrow> parse_int (Some (web_quantity record)));
          docs = web_technical_documents record
      in sol3 \<lparr> sol_clins :=
                  (case update_first_nsn nsn (web_enhance docs nomenclature clean_pr final_quantity)
                          (sol_clins sol3) of
                     Some cs \<Rightarrow> cs
                   | None \<Rightarrow> sol_clins sol3
                              @ [web_clin nsn raw_nsn nomenclature clean_pr final_quantity docs]) \<rparr>)"

text \<open>The body of \<open>for record in web_data\<close>.\<close>

definition web_step :: "env \<Rightarrow> sol_map \<Rightarrow> web_row \<Rightarrow> sol_map" where
  "web_step e solicitations record =
     (let sol_num = strip (web_solicitation record) in
      if sol_num = [] then solicitations
      else (let sol_num_clean = upper (strip sol_num) in
            modify sol_num_clean (web_update e record)
              (ensure sol_num_clean (new_solicitation e sol_num_clean ''web_scrape'')
                 solicitations)))"

definition web_pass :: "env \<Rightarrow> web_row list \<Rightarrow> sol_map \<Rightarrow> sol_map" where
  "web_pass e web_data solicitations = foldl (web_step e) solicitations web_data"

subsection \<open>Pass 3: the index rows\<close>

definition in_enhance :: "in_row \<Rightarrow> clin \<Rightarrow> clin" where
  "in_enhance record existing_clin =
     (let c1 = (if clin_nomenclature existing_clin = []
                then existing_clin \<lparr> clin_nomenclature := clean_nomenclature (in_nomenclature record) \<rparr>
                else existing_clin);
          c2 = (if clin_pr_number c1 = [] then c1 \<lparr> clin_pr_number := in_purchase_request record \<rparr>
                else c1);
          c3 = (if missing_number (clin_quantity c2)
                then c2 \<lparr> clin_quantity := parse_int (Some (in_quantity record)) \<rparr> else c2)
      in if missing_text (clin_unit_of_issue c3)
         then c3 \<lparr> clin_unit_of_issue := Some (in_unit_issue record) \<rparr> else c3)"

definition in_clin :: "string \<Rightarrow> in_row \<Rightarrow> clin" where
  "in_clin nsn record =
     \<lparr> clin_number = None, clin_nsn = nsn, clin_part_number = in_nsn_part_number record,
       clin_nomenclature = clean_nomenclature (in_nomenclature record),
       clin_pr_number = in_purchase_request record,
       clin_quantity = parse_int (Some (in_quantity record)),
       clin_unit_of_issue = Some (in_unit_issue record),
       clin_unit_price = None, clin_delivery_days = None,
       clin_technical_documents = None, clin_approved_sources = None \<rparr>"

definition in_update :: "env \<Rightarrow> in_row \<Rightarrow> solicitation \<Rightarrow> solicitation" where
  "in_update e record sol0 =
     (case decode_setaside (in_small_business_setaside record) of
        (code, description, percentage) \<Rightarrow>
          (let setaside_pct_str = strip (in_setaside_percentage record);
               setaside_pct = (if setaside_pct_str \<noteq> [] \<and> isdigit setaside_pct_str
                               then Pct_float (Float_of setaside_pct_str)
                               else Pct_int percentage);
               sol1 = sol0 \<lparr> sol_small_business_setaside := Some code,
                             sol_setaside_percentage := Some setaside_pct,
                             sol_setaside_type := Some description,
                             sol_return_by_date :=
                               parse_date e (Some (in_return_by_date record)) ''%m%d%y'',
                             sol_amsc := Some (in_amsc record) \<rparr>;
               nsn = (case in_nsn_clean record of
                        Some n \<Rightarrow> n
                      | None \<Rightarrow> clean_nsn (in_nsn_part_number record))
           in sol1 \<lparr> sol_clins :=
                       (case update_first_nsn nsn (in_enhance record) (sol_clins sol1) of
                          Some cs \<Rightarrow> cs
                        | None \<Rightarrow> sol_clins sol1 @ [in_clin nsn record]) \<rparr>))"

text \<open>The body of \<open>for record in in_data\<close>: the key is the number as the row has it.\<close>

definition in_step :: "env \<Rightarrow> sol_map \<Rightarrow> in_row \<Rightarrow> sol_map" where
  "in_step e solicitations record =
     (let sol_num = in_solicitation_number record in
      modify sol_num (in_update e record)
        (ensure sol_num (new_solicitation e sol_num ''batch_files'') solicitations))"

definition in_pass :: "env \<Rightarrow> in_row list \<Rightarrow> sol_map \<Rightarrow> sol_map" where
  "in_pass e in_data solicitations = foldl (in_step e) solicitations in_data"

subsection \<open>Pass 4: the approved sources\<close>

definition attach_sources :: "(string \<times> as_row list) list \<Rightarrow> clin \<Rightarrow> clin" where
  "attach_sources as_lookup c =
     (let nsn = clin_nsn c in
      if nsn = [] then c
      else (case map_of as_lookup nsn of
              None \<Rightarrow> c
            | Some sources \<Rightarrow>
                (let approved_sources =
                       map (\<lambda>source. \<lparr> src_supplier_cage_code = as_supplier_cage_code source,
                                        src_supplier_part_number = as_supplier_part_number source \<rparr>)
                         sources;
                     c1 = c \<lparr> clin_approved_sources := Some approved_sources \<rparr>
                 in case approved_sources of
                      [] \<Rightarrow> c1
                    | first # rest \<Rightarrow>
                        if isdigit (remove_char hyphen (clin_part_number c1)) \<or> clin_part_number c1 = []
                        then c1 \<lparr> clin_part_number := src_supplier_part_number first \<rparr>
                        else c1)))"

definition as_pass :: "as_row list \<Rightarrow> sol_map \<Rightarrow> sol_map" where
  "as_pass as_data solicitations =
     (let as_lookup = group_by (\<lambda>record. remove_char hyphen (as_nsn record)) as_data in
      map (\<lambda>(k, sol). (k, sol \<lparr> sol_clins := map (attach_sources as_lookup) (sol_clins sol) \<rparr>))
        solicitations)"

subsection \<open>The merge\<close>

text \<open>
  \<open>merge_data_sources(web_data, in_data, bq_data, as_data)\<close>: the four passes over the
  working map, then \<open>list(solicitations.values())\<close>. The statistics that the function
  logs, and \<open>in_lookup\<close>, which it builds and never reads, are left out.
\<close>

definition merge_data_sources ::
  "env \<Rightarrow> web_row list \<Rightarrow> in_row list \<Rightarrow> bq_row list \<Rightarrow> as_row list \<Rightarrow> solicitation list" where
  "merge_data_sources e web_data in_data bq_data as_data =
     map snd (as_pass as_data (in_pass e in_data (web_pass e web_data (bq_pass e bq_data []))))"

text \<open>
  The identifier as the specification cleans it: trimmed, upper-cased and without hyphens.
\<close>

definition spec_clean_id :: "string \<Rightarrow> string" where
  "spec_clean_id s = remove_char hyphen (upper (strip s))"

text \<open>
  The working map as a dictionary: no key twice, and every Solicitation stored under its
  own number.
\<close>

definition well_keyed :: "sol_map \<Rightarrow> bool" where
  "well_keyed m = (distinct (map fst m) \<and> (\<forall>(k, v)\<in>set m. sol_number v = k))"

text \<open>
  A CLIN without approved sources: the key is absent or holds the empty list. The second
  predicate says it of every CLIN of the working map.
\<close>

definition no_sources :: "clin \<Rightarrow> bool" where
  "no_sources c = (clin_approved_sources c = None \<or> clin_approved_sources c = Some [])"

definition clins_without_sources :: "sol_map \<Rightarrow> bool" where
  "clins_without_sources m = list_all (\<lambda>(k, s). list_all no_sources (sol_clins s)) m"

subsection \<open>Sample rows\<close>

text \<open>
  The rows used where a property is shown at a concrete input. The environment answers
  the one date that the samples hold as the library does; every other date field of the
  samples is empty, and \<open>parse_date\<close> returns before it converts an empty text.
\<close>

definition sample_env :: env where
  "sample_env =
     \<lparr> env_now = ''2025-01-15T00:00:00Z'',
       env_strptime = (\<lambda>fmt s. if fmt = ''%m/%d/%Y'' \<and> s = ''01/15/2025''
                                then Some ''2025-01-15'' else None) \<rparr>"

definition sample_bq :: "string \<Rightarrow> string \<Rightarrow> string \<Rightarrow> string \<Rightarrow> bq_row" where
  "sample_bq num line nsn return_by =
     \<lparr> bq_solicitation_number = num, bq_solicitation_type = ''F'',
       bq_small_business_setaside = ''Y'', bq_additional_clause_fillins = ''N'',
       bq_return_by_date = return_by, bq_line_number = line,
       bq_purchase_request = ''0098765432'', bq_nsn_part_number = nsn,
       bq_unit_of_issue = ''EA'', bq_quantity = ''10'', bq_unit_price = [],
       bq_delivery_days = [],
       bq_nsn_clean = (if nsn \<noteq> [] then Some (remove_char hyphen nsn) else None) \<rparr>"

definition sample_web :: "string \<Rightarrow> string \<Rightarrow> web_row" where
  "sample_web num nsn =
     \<lparr> web_item_number = ''1'', web_nsn_part_number = nsn, web_nomenclature = ''BOLT'',
       web_technical_documents = [], web_solicitation = num, web_solicitation_url = [],
       web_setaside_type = [], web_rfq_quote_status = [], web_purchase_request = [],
       web_pr_number = [], web_quantity = [], web_issued = [], web_return_by = [] \<rparr>"

definition sample_as :: "string \<Rightarrow> string \<Rightarrow> string \<Rightarrow> as_row" where
  "sample_as nsn cage part =
     \<lparr> as_nsn = nsn, as_supplier_cage_code = cage, as_supplier_part_number = part,
       as_supplier_name = [] \<rparr>"

section \<open>The session and the paginated crawl\<close>

subsection \<open>Pages and requests\<close>

text \<open>
  A page is taken as the sequence of calls that \<open>html.parser.HTMLParser.feed\<close> makes
  on it: start tags with their attributes (a name and a value, \<open>None\<close> for an attribute
  written without value), end tags and text. The tokenizing itself is the library's.
\<close>

datatype html_event =
  Start_tag string "(string \<times> string option) list"
| End_tag string
| Data string

type_synonym page = "html_event list"

text \<open>
  The form fields: the dictionary \<open>form_data\<close>, in insertion order. Names and values are
  attribute values, so either can be \<open>None\<close>.
\<close>

type_synonym form_data = "(string option \<times> string option) list"

datatype request = Get string | Post string form_data

text \<open>
  The exceptions that leave these functions. \<open>Request_error\<close> stands for whatever
  \<open>session.request(...).content.decode('utf-8')\<close> raises.
\<close>

datatype exn = Request_error | Key_error | Attribute_error

text \<open>
  The network and the \<open>requests.Session\<close> object: a request made in a session state
  either raises or gives a page and the next session state (the cookies the server has
  set so far).
\<close>

type_synonym 's net = "'s \<Rightarrow> request \<Rightarrow> exn + page \<times> 's"

subsection \<open>\<open>FormParser\<close>\<close>

record form_state =
  fs_form_data :: form_data
  fs_form_action :: "string option"
  fs_form_method :: string
  fs_parsing_form :: bool

definition form_init :: form_state where
  "form_init = \<lparr> fs_form_data = [], fs_form_action = Some [], fs_form_method = ''get'',
                  fs_parsing_form = False \<rparr>"

text \<open>\<open>dict(attrs)\<close> read at a key: the last attribute of that name counts.\<close>

definition attr :: "(string \<times> string option) list \<Rightarrow> string \<Rightarrow> string option option" where
  "attr attrs name = map_of (rev attrs) name"

text \<open>\<open>handle_starttag\<close> and \<open>handle_endtag\<close>; text is ignored.\<close>

fun form_event :: "form_state \<Rightarrow> html_event \<Rightarrow> exn + form_state" where
  "form_event st (Start_tag tag attrs) =
     (if tag = ''form'' then
        (case attr attrs ''action'' of
           None \<Rightarrow> Inl Key_error
         | Some action \<Rightarrow>
             (case attr attrs ''method'' of
                None \<Rightarrow> Inl Key_error
              | Some None \<Rightarrow> Inl Attribute_error
              | Some (Some method) \<Rightarrow>
                  Inr \<lparr> fs_form_data = [], fs_form_action = action,
                        fs_form_method = upper method, fs_parsing_form = True \<rparr>))
      else if fs_parsing_form st \<and> tag = ''input'' then
        (case (attr attrs ''name'', attr attrs ''value'') of
           (Some name, Some v) \<Rightarrow>
             Inr (st \<lparr> fs_form_data := AList.update name v (fs_form_data st) \<rparr>)
         | _ \<Rightarrow> Inr st)
      else Inr st)"
| "form_event st (End_tag tag) =
     (if tag = ''form'' then Inr (st \<lparr> fs_parsing_form := False \<rparr>) else Inr st)"
| "form_event st (Data d) = Inr st"

fun form_feed :: "form_state \<Rightarrow> page \<Rightarrow> exn + form_state" where
  "form_feed st [] = Inr st"
| "form_feed st (ev # evs) =
     (case form_event st ev of
        Inl x \<Rightarrow> Inl x
      | Inr st' \<Rightarrow> form_feed st' evs)"

text \<open>\<open>s.replace('./', '')\<close>.\<close>

fun remove_dot_slash :: "string \<Rightarrow> string" where
  "remove_dot_slash (a # b # rest) =
     (if a = CHR ''.'' \<and> b = CHR ''/'' then remove_dot_slash rest
      else a # remove_dot_slash (b # rest))"
| "remove_dot_slash s = s"

text \<open>\<open>FormParser.parse(page)\<close>: the fields, the action and the method.\<close>

definition FormParser_parse :: "page \<Rightarrow> exn + form_data \<times> string \<times> string" where
  "FormParser_parse pg =
     (case form_feed form_init pg of
        Inl x \<Rightarrow> Inl x
      | Inr st \<Rightarrow>
          (case fs_form_action st of
             None \<Rightarrow> Inl Attribute_error
           | Some action \<Rightarrow> Inr (fs_form_data st, remove_dot_slash action, fs_form_method st)))"

subsection \<open>\<open>dibbs_session\<close> (\<open>solicitations.py\<close>)\<close>

text \<open>
  The session handle is the session state after the two requests; \<open>s0\<close> is the state of
  the new \<open>requests.Session()\<close>.
\<close>

definition dibbs_session :: "'s net \<Rightarrow> 's \<Rightarrow> string \<Rightarrow> exn + 's" where
  "dibbs_session net s0 host =
     (case net s0 (Get (host @ ''dodwarning.aspx?goto=/'')) of
        Inl x \<Rightarrow> Inl x
      | Inr (pg, s1) \<Rightarrow>
          (case FormParser_parse pg of
             Inl x \<Rightarrow> Inl x
           | Inr (form_data, form_action, form_method) \<Rightarrow>
               (case net s1 (Post (host @ form_action) form_data) of
                  Inl x \<Rightarrow> Inl x
                | Inr (pg2, s2) \<Rightarrow> Inr s2)))"

subsection \<open>The page loop (\<open>dibbs_solicitations_scrape\<close>, \<open>dibbs_solicitations\<close>)\<close>

text \<open>\<open>str(n)\<close> for a page number.\<close>

fun decimal :: "nat \<Rightarrow> string" where
  "decimal n =
     (if n < 10 then [''0123456789'' ! n]
      else decimal (n div 10) @ [''0123456789'' ! (n mod 10)])"

text \<open>The form state changed to ask for page \<open>number\<close>.\<close>

definition next_page_form :: "nat \<Rightarrow> form_data \<Rightarrow> form_data" where
  "next_page_form number form_data =
     AList.delete (Some ''ctl00$butDbSearch'')
       (AList.delete (Some ''ctl00$butNavigation'')
          (AList.update (Some ''ctl00$txtValue'') (Some [])
             (AList.update (Some ''ctl00$ddlGotoDB'') (Some [])
                (AList.update (Some ''ctl00$ddlNavigation'') (Some [])
                   (AList.update (Some ''__EVENTARGUMENT'') (Some (''Page$'' @ decimal number))
                      (AList.update (Some ''__EVENTTARGET'') (Some ''ctl00$cph1$grdRfqSearch'')
                         form_data))))))"

text \<open>\<open>test_mode and max_records and len(rows) >= max_records\<close>.\<close>

definition limit_reached :: "bool \<Rightarrow> nat option \<Rightarrow> 'r list \<Rightarrow> bool" where
  "limit_reached test_mode max_records rows =
     (case max_records of
        None \<Rightarrow> False
      | Some m \<Rightarrow> test_mode \<and> m \<noteq> 0 \<and> length rows \<ge> m)"

text \<open>\<open>rows[:max_records]\<close>.\<close>

definition cut_rows :: "nat option \<Rightarrow> 'r list \<Rightarrow> 'r list" where
  "cut_rows max_records rows = (case max_records of None \<Rightarrow> rows | Some m \<Rightarrow> take m rows)"

text \<open>What a page request came to: the number of rows parsed from the page, or an exception.\<close>

datatype outcome = Rows nat | Raised exn

text \<open>
  What the crawl is run with: the network, \<open>RfqRecsParser.parse\<close> (the declared count
  and the rows of a page; the loop is the same for every row parser), the URL of the
  listing and the two test-mode arguments.
\<close>

record ('s, 'r) crawl =
  crawl_net :: "'s net"
  crawl_rows_of :: "page \<Rightarrow> nat \<times> 'r list"
  crawl_form_action :: string
  crawl_test_mode :: bool
  crawl_max_records :: "nat option"

text \<open>
  The loop \<open>while len(rows) < count and len(rows_more) > 0\<close>. The state is the session,
  the page number, the form state, the rows so far and the rows of the last page; the
  trace lists the page requests issued so far, each with its outcome. The result is the
  final trace and the rows returned, or the exception that ended the crawl.
\<close>

function page_loop ::
  "('s, 'r) crawl \<Rightarrow> nat \<Rightarrow> 's \<Rightarrow> nat \<Rightarrow> form_data \<Rightarrow> 'r list \<Rightarrow> 'r list
     \<Rightarrow> (request \<times> outcome) list \<Rightarrow> (request \<times> outcome) list \<times> (exn + 'r list)" where
  "page_loop c count s number form_data rows rows_more trace =
     (if length rows < count \<and> length rows_more > 0 then
        (if limit_reached (crawl_test_mode c) (crawl_max_records c) rows
         then (trace, Inr (cut_rows (crawl_max_records c) rows))
         else (let req = Post (crawl_form_action c) (next_page_form (number + 1) form_data) in
               case crawl_net c s req of
                 Inl x \<Rightarrow> (trace @ [(req, Raised x)], Inl x)
               | Inr (pg, s') \<Rightarrow>
                   (case FormParser_parse pg of
                      Inl x \<Rightarrow> (trace @ [(req, Raised x)], Inl x)
                    | Inr (form_data', form_action', form_method') \<Rightarrow>
                        page_loop c count s' (number + 1) form_data'
                          (rows @ snd (crawl_rows_of c pg)) (snd (crawl_rows_of c pg))
                          (trace @ [(req, Rows (length (snd (crawl_rows_of c pg))))]))))
      else (trace, Inr rows))"
  by pat_completeness auto
termination
  by (relation "measure (\<lambda>(c, count, s, number, form_data, rows, rows_more, trace).
        2 * (count - length rows) + (if rows_more = [] then 0 else 1))")
    (auto simp: length_greater_0_conv [symmetric] simp del: length_greater_0_conv)

declare page_loop.simps [simp del]

text \<open>
  The crawl after the session is set up: the first page by \<open>GET\<close>, then the loop.
\<close>

definition first_page ::
  "('s, 'r) crawl \<Rightarrow> 's \<Rightarrow> (request \<times> outcome) list \<times> (exn + 'r list)" where
  "first_page c s =
     (let req = Get (crawl_form_action c) in
      case crawl_net c s req of
        Inl x \<Rightarrow> ([(req, Raised x)], Inl x)
      | Inr (pg, s') \<Rightarrow>
          (case FormParser_parse pg of
             Inl x \<Rightarrow> ([(req, Raised x)], Inl x)
           | Inr (form_data, form_action', form_method') \<Rightarrow>
               (case crawl_rows_of c pg of
                  (count, rows_more) \<Rightarrow>
                    if limit_reached (crawl_test_mode c) (crawl_max_records c) rows_more
                    then ([(req, Rows (length rows_more))],
                          Inr (cut_rows (crawl_max_records c) rows_more))
                    else page_loop c count s' 1 form_data rows_more rows_more
                           [(req, Rows (length rows_more))])))"

text \<open>
  \<open>dibbs_solicitations_scrape(config, day, test_mode, max_records)\<close>: the session, then
  the pages. The trace holds the page requests only.
\<close>

definition dibbs_solicitations_scrape ::
  "('s, 'r) crawl \<Rightarrow> 's \<Rightarrow> string \<Rightarrow> (request \<times> outcome) list \<times> (exn + 'r list)" where
  "dibbs_solicitations_scrape c s0 host =
     (case dibbs_session (crawl_net c) s0 host of
        Inl x \<Rightarrow> ([], Inl x)
      | Inr s \<Rightarrow> first_page c s)"

subsection \<open>A sample site\<close>

text \<open>
  A site that answers four requests: the landing page with its consent form, the reply to
  the consent, a first result page with two rows, and a second result page without rows.
  The session state counts the requests made. The sample row parser declares ten records
  on every page and takes each text of the page as a row.
\<close>

definition sample_landing :: page where
  "sample_landing =
     [Start_tag ''form'' [(''method'', Some ''post''), (''action'', Some ''./dodwarning.aspx?goto=/'')],
      Start_tag ''input'' [(''type'', Some ''submit''), (''name'', Some ''butAgree''), (''value'', Some ''OK'')],
      End_tag ''form'']"

definition sample_results :: "string list \<Rightarrow> page" where
  "sample_results rows =
     [Start_tag ''form'' [(''method'', Some ''post''), (''action'', Some ''./RfqRecs.aspx'')],
      Start_tag ''input'' [(''name'', Some ''__VIEWSTATE''), (''value'', Some ''abc'')],
      Start_tag ''input'' [(''name'', Some ''ctl00$butDbSearch''), (''value'', Some ''Go'')],
      End_tag ''form''] @ map Data rows"

definition sample_net :: "nat net" where
  "sample_net s req =
     (if s = 0 then Inr (sample_landing, 1)
      else if s = 1 then Inr ([], 2)
      else if s = 2 then Inr (sample_results [''row 1'', ''row 2''], 3)
      else Inr (sample_results [], Suc s))"

fun data_of :: "html_event \<Rightarrow> string list" where
  "data_of (Data d) = [d]"
| "data_of ev = []"

definition sample_crawl :: "(nat, string) crawl" where
  "sample_crawl =
     \<lparr> crawl_net = sample_net,
       crawl_rows_of = (\<lambda>pg. (10, concat (map data_of pg))),
       crawl_form_action = ''https://www.dibbs.bsm.dla.mil/RFQ/RfqRecs.aspx?category=post&TypeSrch=dt&Value=06-03-2025'',
       crawl_test_mode = False,
       crawl_max_records = None \<rparr>"

section \<open>Properties of the tokenizer\<close>

lemma spec_fields_ne: "spec_fields q s \<noteq> []"
  by (induction s arbitrary: q) (auto split: list.splits)

lemma length_spec_fields: "length (spec_fields q s) = Suc (unquoted_commas q s)"
proof (induction s arbitrary: q)
  case Nil
  show ?case by simp
next
  case (Cons x xs)
  show ?case
    using Cons.IH [of q] Cons.IH [of "\<not> q"] spec_fields_ne [of q xs]
    by (cases "spec_fields q xs") auto
qed

text \<open>
  The loop invariant: the finished parts followed by the field under construction are
  the fields of the text read so far.
\<close>

lemma foldl_tokenize_step:
  "(case foldl tokenize_step (parts, cur, q) s of (p, c, q') \<Rightarrow> p @ [c]) =
   parts @ ((cur @ hd (spec_fields q s)) # tl (spec_fields q s))"
proof (induction s arbitrary: parts cur q)
  case Nil
  show ?case by simp
next
  case (Cons x xs)
  show ?case
    using Cons.IH [of parts cur "\<not> q"] Cons.IH [of "parts @ [cur]" "[]" q]
      Cons.IH [of parts "cur @ [x]" q] spec_fields_ne [of q xs]
    by (auto split: list.splits)
qed

lemma foldl_tokenize_fields:
  assumes "foldl tokenize_step ([], [], False) line = (p, c, q')"
  shows "p @ [c] = spec_fields False line"
  using foldl_tokenize_step [of "[]" "[]" False line] spec_fields_ne [of False line]
  by (simp add: assms)

lemma tokenize_spec:
  "tokenize line =
     (if last (spec_fields False line) = [] then butlast (spec_fields False line)
      else spec_fields False line)"
proof -
  obtain p c q' where f: "foldl tokenize_step ([], [], False) line = (p, c, q')"
    by (cases "foldl tokenize_step ([], [], False) line") auto
  have pc: "p @ [c] = spec_fields False line"
    by (rule foldl_tokenize_fields [OF f])
  then have "butlast (spec_fields False line) = p" "last (spec_fields False line) = c"
    by (metis butlast_snoc, metis last_snoc)
  then show ?thesis
    by (simp add: tokenize_def f pc)
qed

lemma foldl_quote_state:
  "snd (snd (foldl tokenize_step (p, c, q) s)) = quote_state q s"
  by (induction s arbitrary: p c q) auto

lemma last_field_current:
  "last (spec_fields False line) = fst (snd (foldl tokenize_step ([], [], False) line))"
proof -
  obtain p c q' where f: "foldl tokenize_step ([], [], False) line = (p, c, q')"
    by (cases "foldl tokenize_step ([], [], False) line") auto
  show ?thesis
    using foldl_tokenize_fields [OF f] by (metis f fst_conv snd_conv last_snoc)
qed

lemma last_field_after_comma:
  assumes "\<not> quote_state False s"
  shows "last (spec_fields False (s @ [comma])) = []"
    and "last (spec_fields False (s @ [comma, dquote, dquote])) = []"
proof -
  obtain p c q' where f: "foldl tokenize_step ([], [], False) s = (p, c, q')"
    by (cases "foldl tokenize_step ([], [], False) s") auto
  have "q' = False"
    using foldl_quote_state [of "[]" "[]" False s] assms by (simp add: f)
  then show "last (spec_fields False (s @ [comma])) = []"
    and "last (spec_fields False (s @ [comma, dquote, dquote])) = []"
    by (simp_all add: last_field_current f)
qed

text \<open>
  C10. A line that ends with a comma outside quotes, or with an empty quoted field after
  such a comma, loses its last (empty) field: the tokenizer returns all fields but the last,
  so as many columns as there are separators, one fewer than the separators imply. The
  columns before it, empty ones included, are the fields as they stand. The acceptance test
  \<open>len(parts) >= 48\<close> is then a test on the number of separators.
\<close>

theorem tokenize_drops_trailing_empty_field:
  assumes "\<not> quote_state False s"
    and "line = s @ [comma] \<or> line = s @ [comma, dquote, dquote]"
  shows "tokenize line = butlast (spec_fields False line)
       \<and> length (tokenize line) = unquoted_commas False line
       \<and> length (spec_fields False line) = Suc (unquoted_commas False line)
       \<and> (\<forall>i < length (tokenize line). tokenize line ! i = spec_fields False line ! i)
       \<and> ((48 \<le> length (tokenize line)) = (48 \<le> unquoted_commas False line))"
proof -
  have e: "last (spec_fields False line) = []"
    using assms last_field_after_comma by blast
  have t: "tokenize line = butlast (spec_fields False line)"
    using e by (simp add: tokenize_spec)
  have l: "length (tokenize line) = unquoted_commas False line"
    by (simp add: t length_spec_fields)
  have n: "\<forall>i < length (tokenize line). tokenize line ! i = spec_fields False line ! i"
    by (simp add: t nth_butlast)
  show ?thesis
    using t l n by (simp add: length_spec_fields)
qed

text \<open>
  At \<open>a,,b,\<close> the interior empty field stays and the trailing one goes: three columns for
  three separators. A line of 47 fields \<open>a\<close>, each followed by a comma, is rejected by
  the batch-quote parser; the same line with a non-empty 48th field is accepted.
\<close>

theorem tokenize_drops_trailing_empty_field_witness:
  "\<not> quote_state False ''a,,b''
   \<and> tokenize ''a,,b,'' = [''a'', [], ''b'']
   \<and> spec_fields False ''a,,b,'' = [''a'', [], ''b'', []]
   \<and> unquoted_commas False ''a,,b,'' = 3
   \<and> parse_bq_line (concat (replicate 47 ''a,'')) = []
   \<and> length (parse_bq_line (concat (replicate 47 ''a,'') @ ''b'')) = 1"
proof -
  have h: "\<not> quote_state False ''a,,b''" by simp
  have "tokenize (''a,,b'' @ [comma]) = butlast (spec_fields False (''a,,b'' @ [comma]))"
    using tokenize_drops_trailing_empty_field [OF h, of "''a,,b'' @ [comma]"] by blast
  moreover have "parse_bq_line (concat (replicate 47 ''a,'')) = []" by code_simp
  moreover have "length (parse_bq_line (concat (replicate 47 ''a,'') @ ''b'')) = 1" by code_simp
  ultimately show ?thesis using h by simp
qed

text \<open>
  C5. The approved-sources parser does not use the tokenizer: it splits the line at every
  comma and strips the quotes from the ends of each piece. On the approved-source line
  \<open>"1234567890123","1ABC5","PN1","ACME, INC."\<close> it finds five columns and records the
  supplier name \<open>ACME\<close>, where the tokenizer of the batch-quote parser finds four columns
  and keeps \<open>ACME, INC.\<close> whole.
\<close>

theorem as_parser_splits_inside_quotes:
  "as_parts ([dquote] @ ''1234567890123'' @ [dquote, comma, dquote] @ ''1ABC5''
       @ [dquote, comma, dquote] @ ''PN1'' @ [dquote, comma, dquote] @ ''ACME, INC.'' @ [dquote])
     = [''1234567890123'', ''1ABC5'', ''PN1'', ''ACME'', '' INC.'']
   \<and> tokenize ([dquote] @ ''1234567890123'' @ [dquote, comma, dquote] @ ''1ABC5''
       @ [dquote, comma, dquote] @ ''PN1'' @ [dquote, comma, dquote] @ ''ACME, INC.'' @ [dquote])
     = [''1234567890123'', ''1ABC5'', ''PN1'', ''ACME, INC.'']
   \<and> map as_supplier_name (parse_as_file ([dquote] @ ''1234567890123'' @ [dquote, comma, dquote]
       @ ''1ABC5'' @ [dquote, comma, dquote] @ ''PN1'' @ [dquote, comma, dquote] @ ''ACME, INC.''
       @ [dquote])) = [''ACME'']"
  by (simp add: as_parts_def strip_char_def tokenize_def parse_as_file_def parse_as_line_def
      strip_def lstrip_def rstrip_def is_space_def)

section \<open>Properties of the fixed-width parser\<close>

lemma parse_in_lines_filter:
  "parse_in_lines records ls = records @ map in_record (filter (\<lambda>l. strip l \<noteq> []) ls)"
  by (induction ls arbitrary: records) auto

lemma fp_parse_in_lines_filter:
  "fp_parse_in_lines records ls = records @ map fp_in_record (filter (\<lambda>l. strip l \<noteq> []) ls)"
  by (induction ls arbitrary: records) auto

text \<open>
  C8, as stated: a non-empty line shorter than any usable record would be skipped. The
  parser has no length test: the six-character line \<open>SPE1C1\<close> gives a record, with the
  fields beyond the end of the line empty.
\<close>

theorem parse_in_file_keeps_short_line:
  "parse_in_file ''SPE1C1'' =
     [\<lparr> in_solicitation_number = ''SPE1C1'', in_nsn_part_number = [], in_purchase_request = [],
        in_return_by_date = [], in_file_name = [], in_quantity = [], in_unit_issue = [],
        in_nomenclature = [], in_buyer_code = [], in_amsc = [], in_item_type = [],
        in_small_business_setaside = [], in_setaside_percentage = [], in_nsn_clean = None \<rparr>]"
  by (simp add: parse_in_file_def in_record_def slice_def strip_def lstrip_def rstrip_def
      is_space_def)

text \<open>
  C8, amended: only the lines that are blank after trimming are skipped. Every other
  line, whatever its length, contributes exactly one record, and no line stops the parse:
  the records are those of the non-blank lines, in order, in both copies of the parser.
\<close>

theorem parse_in_file_one_record_per_nonblank_line:
  "parse_in_file content =
     map in_record (filter (\<lambda>l. strip l \<noteq> []) (split_char newline content))
   \<and> fp_parse_in_lines [] ls = map fp_in_record (filter (\<lambda>l. strip l \<noteq> []) ls)
   \<and> length (parse_in_file content) =
       length (filter (\<lambda>l. strip l \<noteq> []) (split_char newline content))"
  by (simp add: parse_in_file_def parse_in_lines_filter fp_parse_in_lines_filter)

section \<open>Properties of the quantity extraction\<close>




lemma strip_id:
  assumes "s \<noteq> []" "\<not> is_space (hd s)" "\<not> is_space (last s)"
  shows "strip s = s"
proof -
  have l: "lstrip s = s"
    using assms by (cases s) (auto simp: lstrip_def)
  have "dropWhile is_space (rev s) = rev s"
    using assms by (cases "rev s") (auto simp: last_rev hd_rev)
  then show ?thesis
    by (simp add: strip_def l rstrip_def)
qed






























section \<open>Properties of the reconciliation engine\<close>

subsection \<open>Grouping\<close>

lemma map_of_group_add:
  "map_of (group_add key l r) k =
     (if key r = k
      then Some ((case map_of l k of None \<Rightarrow> [] | Some xs \<Rightarrow> xs) @ [r])
      else map_of l k)"
  by (auto simp: group_add_def update_conv' map_add_def split: option.splits)

lemma map_of_foldl_group_add:
  "map_of (foldl (group_add key) l rs) k =
     (case map_of l k of
        None \<Rightarrow> if k \<in> key ` set rs then Some (filter (\<lambda>r. key r = k) rs) else None
      | Some xs \<Rightarrow> Some (xs @ filter (\<lambda>r. key r = k) rs))"
proof (induction rs arbitrary: l)
  case Nil
  show ?case by (simp split: option.splits)
next
  case (Cons r rs)
  show ?case
    unfolding foldl_Cons Cons.IH [of "group_add key l r"] map_of_group_add
    by (auto split: option.splits)
qed

lemma map_of_group_by:
  "map_of (group_by key rs) k =
     (if k \<in> key ` set rs then Some (filter (\<lambda>r. key r = k) rs) else None)"
  by (simp add: group_by_def map_of_foldl_group_add)

lemma keys_group_add: "fst ` set (group_add key l r) = insert (key r) (fst ` set l)"
  by (auto simp: group_add_def dom_update split: option.splits dest: map_of_SomeD
      intro: rev_image_eqI)

lemma keys_group_by_aux: "fst ` set (foldl (group_add key) l rs) = fst ` set l \<union> key ` set rs"
  by (induction rs arbitrary: l) (auto simp: keys_group_add)

lemma keys_group_by: "fst ` set (group_by key rs) = key ` set rs"
  by (simp add: group_by_def keys_group_by_aux)

subsection \<open>The working map\<close>

lemma keys_modify: "map fst (modify k f m) = map fst m"
  by (induction m) (auto simp: modify_def)

lemma keys_ensure: "set (map fst (ensure k v m)) = insert k (set (map fst m))"
  by (auto simp: ensure_def)

lemma well_keyed_ensure:
  "well_keyed m \<Longrightarrow> sol_number v = k \<Longrightarrow> well_keyed (ensure k v m)"
  by (auto simp: well_keyed_def ensure_def)

lemma well_keyed_modify:
  assumes "well_keyed m" "\<And>v. sol_number (f v) = sol_number v"
  shows "well_keyed (modify k f m)"
  using assms by (auto simp: well_keyed_def keys_modify) (auto simp: modify_def split: if_splits)

lemma sol_number_new [simp]: "sol_number (new_solicitation e k s) = k"
  by (simp add: new_solicitation_def)

lemma sol_number_bq_add: "sol_number (foldl bq_add_clin sol rs) = sol_number sol"
  by (induction rs arbitrary: sol) (auto simp: bq_add_clin_def)

lemma sol_number_web_update: "sol_number (web_update e r sol) = sol_number sol"
  by (simp add: web_update_def Let_def)

lemma sol_number_in_update: "sol_number (in_update e r sol) = sol_number sol"
  by (simp add: in_update_def Let_def split: prod.splits)

lemma well_keyed_bq_group: "well_keyed m \<Longrightarrow> well_keyed (bq_group e m g)"
  by (auto simp: bq_group_def Let_def sol_number_bq_add bq_header_def split: prod.splits list.splits
      intro!: well_keyed_modify well_keyed_ensure)

lemma well_keyed_web_step: "well_keyed m \<Longrightarrow> well_keyed (web_step e m r)"
  by (auto simp: web_step_def Let_def sol_number_web_update
      intro!: well_keyed_modify well_keyed_ensure)

lemma well_keyed_in_step: "well_keyed m \<Longrightarrow> well_keyed (in_step e m r)"
  by (auto simp: in_step_def Let_def sol_number_in_update
      intro!: well_keyed_modify well_keyed_ensure)

lemma well_keyed_foldl:
  assumes "\<And>m r. well_keyed m \<Longrightarrow> well_keyed (step m r)" "well_keyed m"
  shows "well_keyed (foldl step m rs)"
  using assms(2) by (induction rs arbitrary: m) (auto intro: assms(1))

lemma well_keyed_as_pass: "well_keyed m \<Longrightarrow> well_keyed (as_pass a m)"
  by (auto simp: well_keyed_def as_pass_def Let_def comp_def case_prod_beta)

lemma well_keyed_merge_map:
  "well_keyed (as_pass a (in_pass e i (web_pass e w (bq_pass e b []))))"
  unfolding in_pass_def web_pass_def bq_pass_def
  by (intro well_keyed_as_pass well_keyed_foldl well_keyed_in_step well_keyed_web_step
      well_keyed_bq_group) (simp_all add: well_keyed_def)

lemma well_keyed_numbers: "well_keyed m \<Longrightarrow> map sol_number (map snd m) = map fst m"
  by (induction m) (auto simp: well_keyed_def)

lemma rstrip_prefix: "s = rstrip s @ rev (takeWhile is_space (rev s))"
  unfolding rstrip_def
  by (metis rev_append rev_rev_ident takeWhile_dropWhile_id)

lemma strip_ends:
  assumes "strip s \<noteq> []"
  shows "\<not> is_space (hd (strip s))" "\<not> is_space (last (strip s))"
proof -
  let ?t = "lstrip s"
  have r: "rstrip ?t \<noteq> []"
    using assms by (simp add: strip_def)
  then have d: "dropWhile is_space (rev ?t) \<noteq> []"
    by (simp add: rstrip_def)
  have "last (rstrip ?t) = hd (dropWhile is_space (rev ?t))"
    using d by (simp add: rstrip_def last_rev)
  then show "\<not> is_space (last (strip s))"
    using d hd_dropWhile [of is_space "rev ?t"] by (simp add: strip_def)
  have t: "?t \<noteq> []"
    using r by (auto simp: rstrip_def)
  then have "\<not> is_space (hd ?t)"
    unfolding lstrip_def by (rule hd_dropWhile)
  moreover have "hd ?t = hd (rstrip ?t)"
    using rstrip_prefix [of ?t] r by (metis hd_append2)
  ultimately show "\<not> is_space (hd (strip s))"
    by (simp add: strip_def)
qed

lemma strip_strip: "strip (strip s) = strip s"
proof (cases "strip s = []")
  case True
  have e: "strip [] = []"
    by (simp add: strip_def lstrip_def rstrip_def)
  show ?thesis
    unfolding True by (rule e)
next
  case False
  then show ?thesis
    using strip_ends [OF False] by (intro strip_id)
qed

lemma keys_bq_group:
  "set (map fst (bq_group e m g)) = insert (upper (strip (fst (fst g)))) (set (map fst m))"
  by (cases g) (auto simp: bq_group_def Let_def keys_modify keys_ensure simp del: set_map split: prod.splits)

lemma keys_web_step:
  "set (map fst (web_step e m r)) =
     (if strip (web_solicitation r) = [] then set (map fst m)
      else insert (upper (strip (web_solicitation r))) (set (map fst m)))"
  by (simp add: web_step_def Let_def keys_modify keys_ensure strip_strip del: set_map)

lemma keys_in_step:
  "set (map fst (in_step e m r)) = insert (in_solicitation_number r) (set (map fst m))"
  by (simp add: in_step_def Let_def keys_modify keys_ensure del: set_map)

lemma keys_as_pass: "map fst (as_pass a m) = map fst m"
  by (simp add: as_pass_def Let_def comp_def case_prod_beta)

lemma keys_bq_pass_aux:
  "set (map fst (foldl (bq_group e) m gs)) =
     set (map fst m) \<union> (\<lambda>g. upper (strip (fst (fst g)))) ` set gs"
  by (induction gs arbitrary: m) (auto simp: keys_bq_group simp del: set_map)

lemma keys_bq_pass:
  "set (map fst (bq_pass e bq m)) =
     set (map fst m) \<union> (\<lambda>r. upper (strip (bq_solicitation_number r))) ` set bq"
proof -
  let ?key = "\<lambda>record. (bq_solicitation_number record, bq_line_number record)"
  have "(\<lambda>g. upper (strip (fst (fst g)))) ` set (group_by ?key bq)
      = (\<lambda>k. upper (strip (fst k))) ` fst ` set (group_by ?key bq)"
    by (simp add: image_image)
  also have "\<dots> = (\<lambda>r. upper (strip (bq_solicitation_number r))) ` set bq"
    by (simp add: keys_group_by image_image)
  finally show ?thesis
    by (simp add: bq_pass_def keys_bq_pass_aux del: set_map)
qed

lemma keys_web_pass:
  "set (map fst (web_pass e web m)) =
     set (map fst m)
     \<union> (\<lambda>r. upper (strip (web_solicitation r))) ` {r \<in> set web. strip (web_solicitation r) \<noteq> []}"
  unfolding web_pass_def
  by (induction web arbitrary: m) (auto simp: keys_web_step simp del: set_map)

lemma keys_in_pass:
  "set (map fst (in_pass e ind m)) = set (map fst m) \<union> in_solicitation_number ` set ind"
  unfolding in_pass_def
  by (induction ind arbitrary: m) (auto simp: keys_in_step simp del: set_map)

lemma merge_numbers:
  "map sol_number (merge_data_sources e web ind bq a)
     = map fst (as_pass a (in_pass e ind (web_pass e web (bq_pass e bq []))))"
  unfolding merge_data_sources_def
  by (rule well_keyed_numbers) (rule well_keyed_merge_map)

lemma merge_number_set:
  "set (map sol_number (merge_data_sources e web ind bq a)) =
     (\<lambda>r. upper (strip (bq_solicitation_number r))) ` set bq
     \<union> (\<lambda>r. upper (strip (web_solicitation r))) ` {r \<in> set web. strip (web_solicitation r) \<noteq> []}
     \<union> in_solicitation_number ` set ind"
  unfolding merge_numbers keys_as_pass keys_in_pass keys_web_pass keys_bq_pass
  by simp

lemma merge_distinct: "distinct (map sol_number (merge_data_sources e web ind bq a))"
  unfolding merge_numbers
  using well_keyed_merge_map [of a e ind web bq] by (simp add: well_keyed_def)

lemma distinct_map_unique:
  assumes "distinct (map f xs)" "k \<in> set (map f xs)"
  shows "\<exists>!x. x \<in> set xs \<and> f x = k"
  using assms by (auto simp: distinct_map inj_on_def)

text \<open>
  C1, amended: the Solicitations returned have pairwise different numbers, one for each
  key of the working map, and the batch-quote and web passes key the map by the row's
  number trimmed and upper-cased, hyphens kept: every batch-quote row, and every web row
  whose number is not blank, has exactly one returned Solicitation with that key as its
  number.
\<close>

theorem merge_one_solicitation_per_key:
  "distinct (map sol_number (merge_data_sources e web ind bq a))
   \<and> (\<forall>r\<in>set bq. \<exists>!s. s \<in> set (merge_data_sources e web ind bq a)
          \<and> sol_number s = upper (strip (bq_solicitation_number r)))
   \<and> (\<forall>r\<in>set web. strip (web_solicitation r) \<noteq> [] \<longrightarrow>
          (\<exists>!s. s \<in> set (merge_data_sources e web ind bq a)
             \<and> sol_number s = upper (strip (web_solicitation r))))"
proof (intro conjI ballI impI)
  show d: "distinct (map sol_number (merge_data_sources e web ind bq a))"
    by (rule merge_distinct)
  fix r assume "r \<in> set bq"
  then have "upper (strip (bq_solicitation_number r)) \<in> set (map sol_number (merge_data_sources e web ind bq a))"
    unfolding merge_number_set by blast
  then show "\<exists>!s. s \<in> set (merge_data_sources e web ind bq a)
          \<and> sol_number s = upper (strip (bq_solicitation_number r))"
    by (rule distinct_map_unique [OF d])
next
  have d: "distinct (map sol_number (merge_data_sources e web ind bq a))"
    by (rule merge_distinct)
  fix r assume "r \<in> set web" "strip (web_solicitation r) \<noteq> []"
  then have "upper (strip (web_solicitation r)) \<in> set (map sol_number (merge_data_sources e web ind bq a))"
    unfolding merge_number_set by blast
  then show "\<exists>!s. s \<in> set (merge_data_sources e web ind bq a)
          \<and> sol_number s = upper (strip (web_solicitation r))"
    by (rule distinct_map_unique [OF d])
qed

lemma attach_sources_empty: "attach_sources [] c = c"
  by (simp add: attach_sources_def Let_def)

lemma map_attach_sources_empty: "map (attach_sources []) cs = cs"
  by (induction cs) (simp_all add: attach_sources_empty)

lemma upper_nil_iff: "upper s = [] \<longleftrightarrow> s = []"
  by (simp add: upper_def)

text \<open>
  C3, as stated: the web row's number need only clean to \<open>SPE1C1\<close>, cleaning being
  trimming, upper-casing and removing hyphens. The merge keeps hyphens: the web row
  \<open>SPE-1C1\<close> gets a Solicitation of its own, and the merge returns two Solicitations
  with one CLIN each.
\<close>

theorem hyphenated_web_row_gives_two_solicitations:
  "spec_clean_id (web_solicitation (sample_web ''SPE-1C1'' ''5310001234567'')) = spec_clean_id ''SPE1C1''
   \<and> clean_nsn (web_nsn_part_number (sample_web ''SPE-1C1'' ''5310001234567'')) = ''5310001234567''
   \<and> map sol_number
       (merge_data_sources sample_env [sample_web ''SPE-1C1'' ''5310001234567''] []
          [sample_bq ''SPE1C1'' ''1'' ''1234-56-789-0123'' []] [])
     = [''SPE1C1'', ''SPE-1C1'']
   \<and> map (\<lambda>s. length (sol_clins s))
       (merge_data_sources sample_env [sample_web ''SPE-1C1'' ''5310001234567''] []
          [sample_bq ''SPE1C1'' ''1'' ''1234-56-789-0123'' []] [])
     = [1, 1]"
  by code_simp

text \<open>
  C3, amended: one batch-quote row with number \<open>SPE1C1\<close>, line \<open>1\<close> and NSN
  \<open>1234-56-789-0123\<close>, one web row whose number, trimmed and upper-cased with its
  hyphens kept, is \<open>SPE1C1\<close> and whose cleaned NSN is another one, no index and no
  approved-source row: the merge returns one Solicitation, with two CLINs, the first with
  line number \<open>0001\<close> and the second without line number.
\<close>

theorem bq_row_and_web_row_give_two_clins:
  assumes "bq_solicitation_number b = ''SPE1C1''"
    and "bq_line_number b = ''1''"
    and "bq_nsn_part_number b = ''1234-56-789-0123''"
    and "upper (strip (web_solicitation w)) = ''SPE1C1''"
    and "clean_nsn (web_nsn_part_number w) \<noteq> ''1234567890123''"
  shows "map sol_number (merge_data_sources e [w] [] [b] []) = [''SPE1C1'']
       \<and> map (\<lambda>s. length (sol_clins s)) (merge_data_sources e [w] [] [b] []) = [2]
       \<and> map (\<lambda>s. map clin_number (sol_clins s)) (merge_data_sources e [w] [] [b] [])
           = [[Some ''0001'', None]]
       \<and> map (\<lambda>s. map clin_nsn (sol_clins s)) (merge_data_sources e [w] [] [b] [])
           = [[''1234567890123'', clean_nsn (web_nsn_part_number w)]]"
proof -
  define S0 where "S0 = new_solicitation e ''SPE1C1'' ''batch_quote''"
  define S1 where "S1 = bq_add_clin (bq_header e b S0) b"
  define S2 where "S2 = web_update e w S1"
  have k: "upper (strip ''SPE1C1'') = ''SPE1C1''"
    by (simp add: upper_def upper_char_def strip_def lstrip_def rstrip_def is_space_def)
  have g: "group_by (\<lambda>record. (bq_solicitation_number record, bq_line_number record)) [b]
      = [((''SPE1C1'', ''1''), [b])]"
    by (simp add: group_by_def group_add_def assms(1,2))
  have p1: "bq_pass e [b] [] = [(''SPE1C1'', S1)]"
    unfolding bq_pass_def g
    by (simp add: bq_group_def Let_def k ensure_def modify_def S1_def S0_def)
  have ne: "strip (web_solicitation w) \<noteq> []"
    using assms(4) by (auto simp: upper_def)
  have p2: "web_pass e [w] [(''SPE1C1'', S1)] = [(''SPE1C1'', S2)]"
    using ne by (simp add: web_pass_def web_step_def Let_def strip_strip assms(4) ensure_def modify_def S2_def)
  have n1: "sol_number S1 = ''SPE1C1''"
    by (simp add: S1_def S0_def bq_add_clin_def bq_header_def)
  have c1: "sol_clins S1 = [bq_clin b]"
    by (simp add: S1_def S0_def bq_add_clin_def bq_header_def new_solicitation_def)
  have z: "zfill 4 ''1'' = ''0001''"
    by code_simp
  have h: "remove_char hyphen ''1234-56-789-0123'' = ''1234567890123''"
    by (simp add: remove_char_def)
  have b1: "clin_nsn (bq_clin b) = ''1234567890123''" "clin_number (bq_clin b) = Some ''0001''"
    by (simp_all add: bq_clin_def assms(2,3) z h)
  have c2: "sol_clins S2 = [bq_clin b,
      web_clin (clean_nsn (web_nsn_part_number w)) (web_nsn_part_number w)
        (clean_nomenclature (web_nomenclature w))
        (fst (extract_quantity_from_purchase_request (web_purchase_request w)))
        (case snd (extract_quantity_from_purchase_request (web_purchase_request w)) of
           Some q \<Rightarrow> Some q | None \<Rightarrow> parse_int (Some (web_quantity w)))
        (web_technical_documents w)]"
    using assms(5) by (simp add: S2_def web_update_def Let_def c1 b1)
  have n2: "sol_number S2 = ''SPE1C1''"
    by (simp add: S2_def sol_number_web_update n1)
  have m: "merge_data_sources e [w] [] [b] [] = [S2]"
    by (simp add: merge_data_sources_def p1 p2 in_pass_def as_pass_def Let_def group_by_def
        map_attach_sources_empty)
  show ?thesis
    by (simp add: m n2 c2 b1 web_clin_def)
qed

text \<open>
  At the web row \<open> spe1c1 \<close> with NSN text \<open>5310001234567 MilSpec\<close>.
\<close>

theorem bq_row_and_web_row_give_two_clins_witness:
  "bq_solicitation_number (sample_bq ''SPE1C1'' ''1'' ''1234-56-789-0123'' []) = ''SPE1C1''
   \<and> upper (strip (web_solicitation (sample_web '' spe1c1 '' ''5310001234567 MilSpec''))) = ''SPE1C1''
   \<and> clean_nsn (web_nsn_part_number (sample_web '' spe1c1 '' ''5310001234567 MilSpec''))
       = ''5310001234567''
   \<and> map (\<lambda>s. length (sol_clins s))
       (merge_data_sources sample_env [sample_web '' spe1c1 '' ''5310001234567 MilSpec''] []
          [sample_bq ''SPE1C1'' ''1'' ''1234-56-789-0123'' []] []) = [2]
   \<and> map (\<lambda>s. map clin_number (sol_clins s))
       (merge_data_sources sample_env [sample_web '' spe1c1 '' ''5310001234567 MilSpec''] []
          [sample_bq ''SPE1C1'' ''1'' ''1234-56-789-0123'' []] []) = [[Some ''0001'', None]]"
proof -
  let ?b = "sample_bq ''SPE1C1'' ''1'' ''1234-56-789-0123'' []"
  let ?w = "sample_web '' spe1c1 '' ''5310001234567 MilSpec''"
  have h1: "bq_solicitation_number ?b = ''SPE1C1''"
    and h2: "bq_line_number ?b = ''1''"
    and h3: "bq_nsn_part_number ?b = ''1234-56-789-0123''"
    by (simp_all add: sample_bq_def)
  have h4: "upper (strip (web_solicitation ?w)) = ''SPE1C1''"
    by code_simp
  have n: "clean_nsn (web_nsn_part_number ?w) = ''5310001234567''"
    by code_simp
  have h5: "clean_nsn (web_nsn_part_number ?w) \<noteq> ''1234567890123''"
    unfolding n by simp
  show ?thesis
    using bq_row_and_web_row_give_two_clins [OF h1 h2 h3 h4 h5, of sample_env] h1 h4 n
    by simp
qed

lemma attach_sources_nsn: "clin_nsn (attach_sources L c) = clin_nsn c"
  by (simp add: attach_sources_def Let_def split: option.splits list.splits)

lemma attach_sources_found:
  assumes "clin_nsn c \<noteq> []" "map_of L (clin_nsn c) = Some sources"
  shows "clin_approved_sources (attach_sources L c) =
     Some (map (\<lambda>source. \<lparr> src_supplier_cage_code = as_supplier_cage_code source,
                            src_supplier_part_number = as_supplier_part_number source \<rparr>) sources)"
  using assms by (simp add: attach_sources_def Let_def split: list.splits)

lemma as_pass_clin:
  assumes "s \<in> set (map snd (as_pass a m))" "c \<in> set (sol_clins s)"
  obtains c0 where
    "c = attach_sources (group_by (\<lambda>record. remove_char hyphen (as_nsn record)) a) c0"
  using assms by (auto simp: as_pass_def Let_def)

subsection \<open>No approved sources before the last pass\<close>

lemma update_first_nsn_all:
  assumes "list_all P cs" "\<And>c. P c \<Longrightarrow> P (f c)" "update_first_nsn n f cs = Some cs'"
  shows "list_all P cs'"
  using assms(1,3) by (induction cs arbitrary: cs') (auto split: if_splits simp: assms(2))

lemma no_sources_new_clins:
  "no_sources (bq_clin r)" "no_sources (web_clin n raw nom pr q docs)" "no_sources (in_clin n i)"
  by (simp_all add: no_sources_def bq_clin_def Let_def web_clin_def in_clin_def)

lemma no_sources_enhance:
  "no_sources c \<Longrightarrow> no_sources (web_enhance docs nom pr q c)"
  "no_sources c \<Longrightarrow> no_sources (in_enhance i c)"
  by (simp_all add: no_sources_def web_enhance_def in_enhance_def Let_def)

lemma no_sources_bq_add:
  "list_all no_sources (sol_clins sol) \<Longrightarrow> list_all no_sources (sol_clins (foldl bq_add_clin sol rs))"
  by (induction rs arbitrary: sol) (auto simp: bq_add_clin_def no_sources_new_clins)

lemma no_sources_web_update:
  assumes "list_all no_sources (sol_clins sol)"
  shows "list_all no_sources (sol_clins (web_update e r sol))"
proof -
  have "list_all no_sources cs'"
    if "update_first_nsn n (web_enhance docs nom pr q) (sol_clins sol) = Some cs'"
    for n docs nom pr q cs'
    using assms _ that by (rule update_first_nsn_all) (rule no_sources_enhance)
  then show ?thesis
    using assms by (auto simp: web_update_def Let_def no_sources_new_clins split: option.splits)
qed

lemma no_sources_in_update:
  assumes "list_all no_sources (sol_clins sol)"
  shows "list_all no_sources (sol_clins (in_update e r sol))"
proof -
  have "list_all no_sources cs'"
    if "update_first_nsn n (in_enhance r) (sol_clins sol) = Some cs'" for n cs'
    using assms _ that by (rule update_first_nsn_all) (rule no_sources_enhance)
  then show ?thesis
    using assms
    by (auto simp: in_update_def Let_def no_sources_new_clins split: option.splits prod.splits)
qed

lemma without_sources_ensure:
  "clins_without_sources m \<Longrightarrow> clins_without_sources (ensure k (new_solicitation e k src) m)"
  by (simp add: clins_without_sources_def ensure_def new_solicitation_def)

lemma without_sources_modify:
  assumes "clins_without_sources m"
    "\<And>s. list_all no_sources (sol_clins s) \<Longrightarrow> list_all no_sources (sol_clins (f s))"
  shows "clins_without_sources (modify k f m)"
  using assms unfolding clins_without_sources_def modify_def
  by (induction m) (auto split: if_splits)

lemma without_sources_bq_group:
  "clins_without_sources m \<Longrightarrow> clins_without_sources (bq_group e m g)"
  by (cases g)
    (auto simp: bq_group_def Let_def bq_header_def split: prod.splits list.splits
      intro!: without_sources_modify without_sources_ensure no_sources_bq_add)

lemma without_sources_web_step:
  "clins_without_sources m \<Longrightarrow> clins_without_sources (web_step e m r)"
  by (auto simp: web_step_def Let_def
      intro!: without_sources_modify without_sources_ensure no_sources_web_update)

lemma without_sources_in_step:
  "clins_without_sources m \<Longrightarrow> clins_without_sources (in_step e m r)"
  by (auto simp: in_step_def Let_def
      intro!: without_sources_modify without_sources_ensure no_sources_in_update)

lemma without_sources_foldl:
  assumes "\<And>m r. clins_without_sources m \<Longrightarrow> clins_without_sources (step m r)"
    "clins_without_sources m"
  shows "clins_without_sources (foldl step m rs)"
  using assms(2) by (induction rs arbitrary: m) (auto intro: assms(1))

lemma without_sources_before_pass4:
  "clins_without_sources (in_pass e i (web_pass e w (bq_pass e b [])))"
  unfolding in_pass_def web_pass_def bq_pass_def
  by (intro without_sources_foldl without_sources_in_step without_sources_web_step
      without_sources_bq_group) (simp_all add: clins_without_sources_def)

lemma attach_sources_skip:
  assumes "clin_nsn c = [] \<or> map_of L (clin_nsn c) = None"
  shows "attach_sources L c = c"
  using assms by (auto simp: attach_sources_def Let_def)

lemma as_pass_clin_from:
  assumes "s \<in> set (map snd (as_pass a m))" "c \<in> set (sol_clins s)"
  obtains k s0 c0 where "(k, s0) \<in> set m" "c0 \<in> set (sol_clins s0)"
    "c = attach_sources (group_by (\<lambda>record. remove_char hyphen (as_nsn record)) a) c0"
  using assms by (auto simp: as_pass_def Let_def)

text \<open>
  C4, amended: in every returned Solicitation, every CLIN whose NSN is not empty and
  equals the hyphen-stripped NSN of some approved-source row has as its approved sources
  the full list of the rows with that NSN, in the order of the file, whichever pass made
  the CLIN, and that row is among them. A CLIN whose NSN is empty, or whose NSN no
  approved-source row has, receives none: its approved sources stay absent or empty.
\<close>

theorem approved_sources_fan_out:
  assumes "s \<in> set (merge_data_sources e web ind bq a)"
    and "c \<in> set (sol_clins s)"
  shows "(\<forall>r\<in>set a. clin_nsn c \<noteq> [] \<and> remove_char hyphen (as_nsn r) = clin_nsn c \<longrightarrow>
            clin_approved_sources c =
              Some (map (\<lambda>source. \<lparr> src_supplier_cage_code = as_supplier_cage_code source,
                                     src_supplier_part_number = as_supplier_part_number source \<rparr>)
                      (filter (\<lambda>source. remove_char hyphen (as_nsn source) = clin_nsn c) a))
            \<and> \<lparr> src_supplier_cage_code = as_supplier_cage_code r,
                 src_supplier_part_number = as_supplier_part_number r \<rparr>
               \<in> set (the (clin_approved_sources c)))
       \<and> (clin_nsn c = [] \<or> (\<forall>r\<in>set a. remove_char hyphen (as_nsn r) \<noteq> clin_nsn c) \<longrightarrow>
            no_sources c)"
proof -
  let ?key = "\<lambda>record. remove_char hyphen (as_nsn record)"
  let ?L = "group_by ?key a"
  let ?m = "in_pass e ind (web_pass e web (bq_pass e bq []))"
  obtain k s0 c0 where m: "(k, s0) \<in> set ?m" and c0: "c0 \<in> set (sol_clins s0)"
    and c: "c = attach_sources ?L c0"
    using assms unfolding merge_data_sources_def by (rule as_pass_clin_from)
  have n: "clin_nsn c0 = clin_nsn c"
    by (simp add: c attach_sources_nsn)
  have before: "no_sources c0"
    using without_sources_before_pass4 [of e ind web bq] m c0
    by (auto simp: clins_without_sources_def list_all_iff)
  have found: "clin_approved_sources c =
      Some (map (\<lambda>source. \<lparr> src_supplier_cage_code = as_supplier_cage_code source,
                             src_supplier_part_number = as_supplier_part_number source \<rparr>)
              (filter (\<lambda>source. ?key source = clin_nsn c) a))
      \<and> \<lparr> src_supplier_cage_code = as_supplier_cage_code r,
           src_supplier_part_number = as_supplier_part_number r \<rparr>
         \<in> set (the (clin_approved_sources c))"
    if r: "r \<in> set a" and ne: "clin_nsn c \<noteq> []" and k: "?key r = clin_nsn c" for r
  proof -
    have "clin_nsn c \<in> ?key ` set a"
      using r k by force
    then have "map_of ?L (clin_nsn c0) = Some (filter (\<lambda>source. ?key source = clin_nsn c) a)"
      by (simp add: map_of_group_by n)
    then have 1: "clin_approved_sources c =
       Some (map (\<lambda>source. \<lparr> src_supplier_cage_code = as_supplier_cage_code source,
                              src_supplier_part_number = as_supplier_part_number source \<rparr>)
               (filter (\<lambda>source. ?key source = clin_nsn c) a))"
      unfolding c using ne n by (intro attach_sources_found) auto
    show ?thesis
      unfolding 1 using r k by (auto simp: image_iff intro!: bexI [of _ r])
  qed
  have skipped: "no_sources c"
    if "clin_nsn c = [] \<or> (\<forall>r\<in>set a. ?key r \<noteq> clin_nsn c)"
  proof -
    have "clin_nsn c0 = [] \<or> map_of ?L (clin_nsn c0) = None"
      using that n by (auto simp: map_of_group_by)
    then have "c = c0"
      unfolding c by (rule attach_sources_skip)
    then show ?thesis
      using before by simp
  qed
  show ?thesis
    using found skipped by blast
qed

text \<open>
  Two web rows of two solicitations with the same NSN and no batch-quote row: the CLIN
  of the second solicitation has no line number and gets both approved sources.
\<close>

theorem approved_sources_fan_out_witness:
  "clin_number (sol_clins (merge_data_sources sample_env
        [sample_web ''SPE1C1'' ''5310001234567'', sample_web ''SPE2C2'' ''5310001234567''] [] []
        [sample_as ''5310-00-123-4567'' ''1ABC5'' ''MS35338-44'',
         sample_as ''5310001234567'' ''2XYZ9'' ''44-A''] ! 1) ! 0) = None
   \<and> clin_approved_sources (sol_clins (merge_data_sources sample_env
        [sample_web ''SPE1C1'' ''5310001234567'', sample_web ''SPE2C2'' ''5310001234567''] [] []
        [sample_as ''5310-00-123-4567'' ''1ABC5'' ''MS35338-44'',
         sample_as ''5310001234567'' ''2XYZ9'' ''44-A''] ! 1) ! 0)
     = Some [\<lparr> src_supplier_cage_code = ''1ABC5'', src_supplier_part_number = ''MS35338-44'' \<rparr>,
             \<lparr> src_supplier_cage_code = ''2XYZ9'', src_supplier_part_number = ''44-A'' \<rparr>]"
proof -
  let ?a = "[sample_as ''5310-00-123-4567'' ''1ABC5'' ''MS35338-44'',
         sample_as ''5310001234567'' ''2XYZ9'' ''44-A'']"
  let ?R = "merge_data_sources sample_env
        [sample_web ''SPE1C1'' ''5310001234567'', sample_web ''SPE2C2'' ''5310001234567''] [] [] ?a"
  let ?c = "sol_clins (?R ! 1) ! 0"
  have l: "length ?R = 2" "length (sol_clins (?R ! 1)) = 1"
    by code_simp+
  have h1: "?R ! 1 \<in> set ?R"
    using l by (intro nth_mem) simp
  have h2: "?c \<in> set (sol_clins (?R ! 1))"
    using l by (intro nth_mem) simp
  have n: "clin_nsn ?c = ''5310001234567''"
    by code_simp
  have h3: "clin_nsn ?c \<noteq> []"
    unfolding n by simp
  have h4: "sample_as ''5310-00-123-4567'' ''1ABC5'' ''MS35338-44'' \<in> set ?a"
    by simp
  have h5: "remove_char hyphen (as_nsn (sample_as ''5310-00-123-4567'' ''1ABC5'' ''MS35338-44'')) = clin_nsn ?c"
    unfolding n by code_simp
  have f: "map (\<lambda>source. \<lparr> src_supplier_cage_code = as_supplier_cage_code source,
                            src_supplier_part_number = as_supplier_part_number source \<rparr>)
             (filter (\<lambda>source. remove_char hyphen (as_nsn source) = ''5310001234567'') ?a)
     = [\<lparr> src_supplier_cage_code = ''1ABC5'', src_supplier_part_number = ''MS35338-44'' \<rparr>,
        \<lparr> src_supplier_cage_code = ''2XYZ9'', src_supplier_part_number = ''44-A'' \<rparr>]"
    by code_simp
  have k: "clin_number ?c = None"
    by code_simp
  show ?thesis
    using approved_sources_fan_out [OF h1 h2] h3 h4 h5 k unfolding n f by auto
qed

text \<open>
  C1, as stated: no two returned Solicitations would have numbers that clean to the same
  identifier, cleaning being trimming, upper-casing and removing hyphens. The merge never
  removes a hyphen from a solicitation number: the batch-quote rows \<open>SPE-1C1\<close> and
  \<open>SPE1C1\<close> give two Solicitations.
\<close>

theorem merge_keeps_hyphenated_number_apart:
  "map sol_number
     (merge_data_sources sample_env [] []
        [sample_bq ''SPE-1C1'' ''1'' ''1234-56-789-0123'' [],
         sample_bq ''SPE1C1'' ''1'' ''1234-56-789-0123'' []] [])
     = [''SPE-1C1'', ''SPE1C1'']
   \<and> spec_clean_id ''SPE-1C1'' = spec_clean_id ''SPE1C1''"
  by code_simp

text \<open>
  At one batch-quote row \<open>SPE1C1\<close> and one web row \<open> spe1c1 \<close>: one Solicitation.
\<close>

theorem merge_one_solicitation_per_key_witness:
  "sample_bq ''SPE1C1'' ''1'' ''1234-56-789-0123'' [] \<in> set [sample_bq ''SPE1C1'' ''1'' ''1234-56-789-0123'' []]
   \<and> sample_web '' spe1c1 '' ''5310001234567'' \<in> set [sample_web '' spe1c1 '' ''5310001234567'']
   \<and> strip (web_solicitation (sample_web '' spe1c1 '' ''5310001234567'')) \<noteq> []
   \<and> distinct (map sol_number
         (merge_data_sources sample_env [sample_web '' spe1c1 '' ''5310001234567''] []
            [sample_bq ''SPE1C1'' ''1'' ''1234-56-789-0123'' []] []))
   \<and> (\<exists>!s. s \<in> set (merge_data_sources sample_env [sample_web '' spe1c1 '' ''5310001234567''] []
            [sample_bq ''SPE1C1'' ''1'' ''1234-56-789-0123'' []] [])
          \<and> sol_number s = ''SPE1C1'')"
proof -
  let ?b = "sample_bq ''SPE1C1'' ''1'' ''1234-56-789-0123'' []"
  let ?w = "sample_web '' spe1c1 '' ''5310001234567''"
  have h: "strip (web_solicitation ?w) \<noteq> []"
    by code_simp
  have k: "upper (strip (web_solicitation ?w)) = ''SPE1C1''"
    by code_simp
  have "\<exists>!s. s \<in> set (merge_data_sources sample_env [?w] [] [?b] [])
          \<and> sol_number s = upper (strip (web_solicitation ?w))"
    using merge_one_solicitation_per_key [of sample_env "[?w]" "[]" "[?b]" "[]"] h by simp
  then show ?thesis
    using merge_one_solicitation_per_key [of sample_env "[?w]" "[]" "[?b]" "[]"] h
    unfolding k by simp
qed

text \<open>
  C2. The batch-quote pass sets the return-by date \<open>2025-01-15\<close> and the set-aside code
  \<open>Y\<close> of solicitation \<open>SPE1C1\<close>. An index line for the same solicitation that
  ends after the NSN has no return-by date and no set-aside code; the index pass stores
  what it parses from it, and the merged Solicitation has the return-by date \<open>None\<close> and
  the set-aside code \<open>''\<close>.
\<close>

theorem index_pass_discards_return_by_date:
  "map sol_return_by_date
     (map snd (bq_pass sample_env [sample_bq ''SPE1C1'' ''1'' ''1234-56-789-0123'' ''01/15/2025''] []))
     = [Some ''2025-01-15'']
   \<and> map in_return_by_date (parse_in_file ''SPE1C1       1234-56-789-0123'') = [[]]
   \<and> map sol_return_by_date
       (merge_data_sources sample_env [] (parse_in_file ''SPE1C1       1234-56-789-0123'')
          [sample_bq ''SPE1C1'' ''1'' ''1234-56-789-0123'' ''01/15/2025''] [])
     = [None]
   \<and> map sol_small_business_setaside
       (merge_data_sources sample_env [] (parse_in_file ''SPE1C1       1234-56-789-0123'')
          [sample_bq ''SPE1C1'' ''1'' ''1234-56-789-0123'' ''01/15/2025''] [])
     = [Some []]"
  by code_simp

text \<open>
  C4, as stated: a CLIN whose NSN equals the hyphen-stripped NSN of an approved-source row
  would always get that row. The pass skips a CLIN whose NSN is empty: a web row without
  NSN and an approved-source row without NSN share the NSN \<open>''\<close>, and the CLIN gets
  no approved sources.
\<close>

theorem empty_nsn_gets_no_sources:
  "map (\<lambda>s. map (\<lambda>c. (clin_nsn c, clin_approved_sources c)) (sol_clins s))
     (merge_data_sources sample_env [sample_web ''SPE1C1'' []] [] []
        [sample_as [] ''1ABC5'' ''MS35338-44''])
     = [[([], None)]]
   \<and> remove_char hyphen (as_nsn (sample_as [] ''1ABC5'' ''MS35338-44'')) = []"
  by code_simp

end
